theory Spec2Isabelle
  imports Complex_Main "HOL-Library.Char_ord" "HOL-Library.List_Lexorder"
begin

section \<open>Evaluation of COVID-19 Forecast Hub case forecasts: a model of
  \<^verbatim>\<open>src/cases/evaluate_models_cases.py\<close>\<close>

text \<open>
  The script is Python over pandas. The embedding keeps the names of the source, and the
  line numbers in the comments are those of the source file.
  \<^item> A Python exception is a value of \<open>error\<close>; a function that can raise returns
    \<open>error + 'a\<close> with \<open>Inl\<close> for the exception.
  \<^item> A \<^verbatim>\<open>datetime.date\<close> is its proleptic Gregorian ordinal
    (\<^verbatim>\<open>date.toordinal()\<close>): the comparison of two dates is the comparison of their
    ordinals and \<^verbatim>\<open>(a - b).days\<close> is the difference of the ordinals.
  \<^item> A floating point cell of a pandas table is a \<open>real option\<close>, \<open>None\<close> for NaN;
    rounding is not modelled.
  \<^item> A column read with \<^verbatim>\<open>dtype=str\<close> holds strings, or NaN where the file has
    nothing: a \<open>string option\<close>.
  \<^item> A pandas series with string labels is a list of pairs of a label and a value, in
    the order of the index.
\<close>

subsection \<open>Exceptions\<close>

datatype error =
  AssertionError string
  | KeyError string
  | ValueError string

subsection \<open>Dates\<close>

type_synonym date = int

definition is_leap :: "int \<Rightarrow> bool" where
  "is_leap y = (y mod 4 = 0 \<and> (y mod 100 \<noteq> 0 \<or> y mod 400 = 0))"

definition days_before_year :: "int \<Rightarrow> int" where
  "days_before_year y = (y - 1) * 365 + (y - 1) div 4 - (y - 1) div 100 + (y - 1) div 400"

definition days_in_month :: "int \<Rightarrow> int \<Rightarrow> int" where
  "days_in_month y m =
     (if m = 2 then (if is_leap y then 29 else 28)
      else if m = 4 \<or> m = 6 \<or> m = 9 \<or> m = 11 then 30 else 31)"

definition days_before_month :: "int \<Rightarrow> int \<Rightarrow> int" where
  "days_before_month y m =
     sum_list (map (days_in_month y) [1 ..< nat m])"

text \<open>\<^verbatim>\<open>datetime.date(y, m, d)\<close>: a \<^verbatim>\<open>ValueError\<close> (here \<open>None\<close>) outside the
  calendar, the ordinal of the day otherwise.\<close>

definition mk_date :: "int \<Rightarrow> int \<Rightarrow> int \<Rightarrow> date option" where
  "mk_date y m d =
     (if 1 \<le> y \<and> y \<le> 9999 \<and> 1 \<le> m \<and> m \<le> 12 \<and> 1 \<le> d \<and> d \<le> days_in_month y m
      then Some (days_before_year y + days_before_month y m + d)
      else None)"

subsection \<open>\<^verbatim>\<open>str_to_date\<close>\<close>

definition is_digit :: "char \<Rightarrow> bool" where
  "is_digit c = (CHR ''0'' \<le> c \<and> c \<le> CHR ''9'')"

definition digit_val :: "char \<Rightarrow> int" where
  "digit_val c = int (of_char c) - 48"

text \<open>The directive \<^verbatim>\<open>%m\<close> of \<^verbatim>\<open>strptime\<close> reads \<^verbatim>\<open>1[0-2]|0[1-9]|[1-9]\<close>.\<close>

definition month_field :: "string \<Rightarrow> int option" where
  "month_field s =
     (case s of
        [a] \<Rightarrow> if CHR ''1'' \<le> a \<and> a \<le> CHR ''9'' then Some (digit_val a) else None
      | [a, b] \<Rightarrow>
          if (a = CHR ''1'' \<and> CHR ''0'' \<le> b \<and> b \<le> CHR ''2'')
             \<or> (a = CHR ''0'' \<and> CHR ''1'' \<le> b \<and> b \<le> CHR ''9'')
          then Some (10 * digit_val a + digit_val b) else None
      | _ \<Rightarrow> None)"

text \<open>The directive \<^verbatim>\<open>%d\<close> reads \<^verbatim>\<open>3[0-1]|[1-2]\d|0[1-9]|[1-9]| [1-9]\<close>.\<close>

definition day_field :: "string \<Rightarrow> int option" where
  "day_field s =
     (case s of
        [a] \<Rightarrow> if CHR ''1'' \<le> a \<and> a \<le> CHR ''9'' then Some (digit_val a) else None
      | [a, b] \<Rightarrow>
          if (a = CHR ''3'' \<and> CHR ''0'' \<le> b \<and> b \<le> CHR ''1'')
             \<or> ((a = CHR ''1'' \<or> a = CHR ''2'') \<and> is_digit b)
             \<or> (a = CHR ''0'' \<and> CHR ''1'' \<le> b \<and> b \<le> CHR ''9'')
          then Some (10 * digit_val a + digit_val b)
          else if a = CHR '' '' \<and> CHR ''1'' \<le> b \<and> b \<le> CHR ''9'' then Some (digit_val b)
          else None
      | _ \<Rightarrow> None)"

text \<open>
  \<^verbatim>\<open>str_to_date(date_str)\<close> is \<^verbatim>\<open>strptime(date_str, '%Y-%m-%d').date()\<close>: four digits
  of year, a dash, the month, a dash, the day, and nothing after it. \<open>None\<close> stands for the
  \<^verbatim>\<open>ValueError\<close> that \<^verbatim>\<open>find_last_projections\<close> catches. Strings are ASCII.
\<close>

definition str_to_date :: "string \<Rightarrow> date option" where
  "str_to_date date_str =
     (case date_str of
        y1 # y2 # y3 # y4 # dash # rest \<Rightarrow>
          if is_digit y1 \<and> is_digit y2 \<and> is_digit y3 \<and> is_digit y4 \<and> dash = CHR ''-''
             \<and> CHR ''-'' \<in> set rest
          then
            (case (month_field (takeWhile (\<lambda>c. c \<noteq> CHR ''-'') rest),
                   day_field (tl (dropWhile (\<lambda>c. c \<noteq> CHR ''-'') rest))) of
               (Some m, Some d) \<Rightarrow>
                 mk_date (1000 * digit_val y1 + 100 * digit_val y2 + 10 * digit_val y3
                            + digit_val y4) m d
             | _ \<Rightarrow> None)
          else None
      | _ \<Rightarrow> None)"

subsection \<open>File Selector: \<^verbatim>\<open>find_last_projections\<close>\<close>

text \<open>\<^verbatim>\<open>os.path.basename\<close>: what follows the last slash.\<close>

definition basename :: "string \<Rightarrow> string" where
  "basename p = rev (takeWhile (\<lambda>c. c \<noteq> CHR ''/'') (rev p))"

text \<open>\<^verbatim>\<open>datetime.date(2020,7,20)\<close>, the ordinal 737626.\<close>

definition date_2020_07_20 :: date where
  "date_2020_07_20 = 737626"

text \<open>One round of the loop over \<^verbatim>\<open>fnames\<close>, on the pair
  \<^verbatim>\<open>(last_valid_fname, last_valid_date)\<close>.\<close>

fun find_loop :: "date \<Rightarrow> string list \<Rightarrow> string option \<times> date option
    \<Rightarrow> string option \<times> date option" where
  "find_loop proj_date [] (last_valid_fname, last_valid_date) =
     (last_valid_fname, last_valid_date)"
| "find_loop proj_date (fname # fnames) (last_valid_fname, last_valid_date) =
     (let file_basename = basename fname in
      case str_to_date (take 10 file_basename) of
        None \<Rightarrow> find_loop proj_date fnames (last_valid_fname, last_valid_date)
      | Some file_date \<Rightarrow>
          (let days_tolerance = (if proj_date \<ge> date_2020_07_20 then 6 else (3::int)) in
           if file_date \<le> proj_date \<and> proj_date - file_date \<le> days_tolerance
           then
             (if (case last_valid_date of None \<Rightarrow> True | Some lvd \<Rightarrow> file_date > lvd)
              then find_loop proj_date fnames (Some fname, Some file_date)
              else find_loop proj_date fnames (last_valid_fname, last_valid_date))
           else find_loop proj_date fnames (last_valid_fname, last_valid_date)))"

definition find_last_projections :: "string list \<Rightarrow> date
    \<Rightarrow> error + (string option \<times> date option)" where
  "find_last_projections fnames proj_date =
     (if sort fnames = fnames
      then Inr (find_loop proj_date fnames (None, None))
      else Inl (AssertionError ''Files not sorted''))"

text \<open>The date a file name embeds, as the loop reads it.\<close>

definition file_date_of :: "string \<Rightarrow> date option" where
  "file_date_of fname = str_to_date (take 10 (basename fname))"

text \<open>Auxiliary notions for the statements about the File Selector: the window of
  tolerance, the date of a file that qualifies, and the position of the selected file.\<close>

definition in_window :: "date \<Rightarrow> date \<Rightarrow> bool" where
  "in_window proj_date d =
     (d \<le> proj_date \<and> proj_date - d \<le> (if proj_date \<ge> date_2020_07_20 then 6 else 3))"

definition qualifying_date :: "date \<Rightarrow> string \<Rightarrow> date option" where
  "qualifying_date proj_date fname =
     (case file_date_of fname of
        None \<Rightarrow> None
      | Some d \<Rightarrow> if in_window proj_date d then Some d else None)"

definition latest_first :: "date \<Rightarrow> string list \<Rightarrow> string \<Rightarrow> date \<Rightarrow> bool" where
  "latest_first p fs f d =
     (\<exists>pre post. fs = pre @ f # post \<and> qualifying_date p f = Some d \<and>
        (\<forall>g\<in>set pre. \<forall>e. qualifying_date p g = Some e \<longrightarrow> e < d) \<and>
        (\<forall>g\<in>set post. \<forall>e. qualifying_date p g = Some e \<longrightarrow> e \<le> d))"

definition loop_result :: "date \<Rightarrow> string list \<Rightarrow> string \<Rightarrow> date \<Rightarrow> string \<Rightarrow> date
    \<Rightarrow> bool" where
  "loop_result p fs f0 d0 f d =
     ((f = f0 \<and> d = d0 \<and> (\<forall>g\<in>set fs. \<forall>e. qualifying_date p g = Some e \<longrightarrow> e \<le> d0))
      \<or> (d0 < d \<and> latest_first p fs f d))"

subsection \<open>Truth Loader\<close>

text \<open>\<^verbatim>\<open>groupby(key)[col].sum()\<close>: one entry per key that occurs, in sorted order; rows
  whose key is missing are left out, and the sum skips missing values.\<close>

definition group_keys :: "('r \<Rightarrow> string option) \<Rightarrow> 'r list \<Rightarrow> string list" where
  "group_keys key rows = sort (remdups (List.map_filter key rows))"

definition nansum :: "real option list \<Rightarrow> real" where
  "nansum vs = sum_list (List.map_filter id vs)"

definition groupby_sum :: "('r \<Rightarrow> string option) \<Rightarrow> ('r \<Rightarrow> real option) \<Rightarrow> 'r list
    \<Rightarrow> (string \<times> real) list" where
  "groupby_sum key col rows =
     map (\<lambda>k. (k, nansum (map col (filter (\<lambda>r. key r = Some k) rows)))) (group_keys key rows)"

text \<open>A row of the truth file after lines 176 to 179: the columns \<^verbatim>\<open>date\<close>,
  \<^verbatim>\<open>location\<close> and \<^verbatim>\<open>daily_cases\<close>.\<close>

record truth_row =
  t_date :: date
  t_location :: "string option"
  daily_cases :: "real option"

text \<open>
  Lines 110 and 181 to 186. The result is the pair of \<^verbatim>\<open>df_truth_filt\<close> and
  \<^verbatim>\<open>us_truth\<close>; the three ways of aborting are the two assertions and the lookup of
  \<^verbatim>\<open>US\<close>.
\<close>

definition truth_loader :: "truth_row list \<Rightarrow> date \<Rightarrow> date \<Rightarrow> string list
    \<Rightarrow> error + ((string \<times> real) list \<times> real)" where
  "truth_loader df_truth_raw proj_date eval_date fips_to_evaluate =
     (let model_ran_date = proj_date - 1;
          df_truth = filter (\<lambda>r. t_date r \<ge> model_ran_date \<and> t_date r \<le> eval_date) df_truth_raw
      in if \<not> length df_truth > 0
         then Inl (AssertionError ''No truth data available for eval date'')
         else
           (let df_truth_sum = groupby_sum t_location daily_cases df_truth;
                df_truth_filt = filter (\<lambda>(l, v). l \<in> set fips_to_evaluate) df_truth_sum
            in if length df_truth_filt \<noteq> length fips_to_evaluate
               then Inl (AssertionError ''Missing FIPS in truth'')
               else (case map_of df_truth_filt ''US'' of
                       None \<Rightarrow> Inl (KeyError ''US'')
                     | Some us_truth \<Rightarrow> Inr (df_truth_filt, us_truth))))"

subsection \<open>Forecast Normalizer\<close>

text \<open>\<^verbatim>\<open>Series.str.contains(pat)\<close> for a pattern without regular expression operators:
  \<open>pat\<close> occurs in the string.\<close>

fun str_contains :: "string \<Rightarrow> string \<Rightarrow> bool" where
  "str_contains pat [] = (pat = [])"
| "str_contains pat (c # s) = (take (length pat) (c # s) = pat \<or> str_contains pat s)"

text \<open>A row of a forecast file, with the columns that \<^verbatim>\<open>validate_projections\<close>
  asks for; \<^verbatim>\<open>type\<close> is \<open>row_type\<close> and \<^verbatim>\<open>value\<close> is \<open>forecast_value\<close> here.\<close>

record forecast_row =
  forecast_date :: date
  target :: string
  target_end_date :: date
  location :: "string option"
  row_type :: string
  quantile :: "real option"
  forecast_value :: "real option"

text \<open>The rows whose target is a weekly incident-case horizon, and the number of rows
  of a location (\<^verbatim>\<open>groupby('location').size()\<close>).\<close>

definition inc_case :: "forecast_row list \<Rightarrow> forecast_row list" where
  "inc_case df = filter (\<lambda>r. str_contains ''wk ahead inc case'' (target r)) df"

definition group_size :: "forecast_row list \<Rightarrow> string \<Rightarrow> nat" where
  "group_size df l = length (filter (\<lambda>r. location r = Some l) df)"

text \<open>Lines 241 to 247: locations with fewer weekly incident-case rows than the largest
  group are dropped, when the groups differ in size.\<close>

definition location_quantile_sizes :: "forecast_row list \<Rightarrow> nat list" where
  "location_quantile_sizes df_model =
     sort (map (group_size (inc_case df_model)) (group_keys location (inc_case df_model)))"

definition horizon_filter :: "forecast_row list \<Rightarrow> forecast_row list" where
  "horizon_filter df_model =
     (let sizes = location_quantile_sizes df_model in
      if length (remdups sizes) > 1
      then filter (\<lambda>r. case location r of
                          None \<Rightarrow> False
                        | Some l \<Rightarrow> group_size (inc_case df_model) l = Max (set sizes))
             (inc_case df_model)
      else df_model)"

text \<open>Lines 252 to 268: point or median, decided on the whole table.\<close>

definition has_point :: "forecast_row list \<Rightarrow> bool" where
  "has_point df_model = (length (filter (\<lambda>r. row_type r = ''point'') df_model) > 0)"

definition has_median :: "forecast_row list \<Rightarrow> bool" where
  "has_median df_model = (length (filter (\<lambda>r. quantile r = Some (1/2)) df_model) > 0)"

definition isin :: "string option \<Rightarrow> string list \<Rightarrow> bool" where
  "isin x xs = (case x of None \<Rightarrow> False | Some l \<Rightarrow> l \<in> set xs)"

definition select_estimate :: "bool \<Rightarrow> string list \<Rightarrow> forecast_row list
    \<Rightarrow> forecast_row list" where
  "select_estimate use_point fips_to_evaluate df_model =
     (let target_str = ''wk ahead inc case'' in
      if has_point df_model \<and> (use_point \<or> \<not> has_median df_model)
      then filter (\<lambda>r. str_contains target_str (target r) \<and> row_type r = ''point''
                        \<and> isin (location r) fips_to_evaluate) df_model
      else filter (\<lambda>r. str_contains target_str (target r) \<and> quantile r = Some (1/2)
                        \<and> isin (location r) fips_to_evaluate) df_model)"

text \<open>The difference of two series aligns them: the labels of the result are the labels
  of either (sorted unless the two indexes are equal), and a label that one of them lacks
  has the value NaN.\<close>

definition union_index :: "string list \<Rightarrow> string list \<Rightarrow> string list" where
  "union_index ia ib = (if ia = ib then ia else sort (remdups (ia @ ib)))"

definition series_sub :: "(string \<times> real) list \<Rightarrow> (string \<times> real) list
    \<Rightarrow> (string \<times> real option) list" where
  "series_sub a b =
     map (\<lambda>k. (k, case (map_of a k, map_of b k) of
                    (Some x, Some y) \<Rightarrow> Some (x - y)
                  | _ \<Rightarrow> None))
       (union_index (map fst a) (map fst b))"

text \<open>What the loop over the models stores for a model that is not skipped (lines 278
  to 287): \<^verbatim>\<open>model_to_num_locations\<close>, \<^verbatim>\<open>model_to_errors\<close>,
  \<^verbatim>\<open>model_to_us_projection\<close> and \<^verbatim>\<open>model_to_all_projections\<close>.\<close>

record model_result =
  num_locations :: nat
  diffs_dict :: "(string \<times> real option) list"
  us_projection :: "real option"
  all_projections :: "(string \<times> real) list"

datatype 'a loaded = Skipped string | Loaded 'a

text \<open>
  Lines 226 to 287, the body of the loop for one model: \<open>Skipped\<close> is a
  \<^verbatim>\<open>continue\<close> with its message, \<open>Inl\<close> a failed assertion.
\<close>

definition load_model :: "forecast_row list \<Rightarrow> date \<Rightarrow> bool \<Rightarrow> string list
    \<Rightarrow> (string \<times> string) list \<Rightarrow> (string \<times> real) list
    \<Rightarrow> error + model_result loaded" where
  "load_model df_model_raw eval_date use_point fips_to_evaluate fips_to_us_state df_truth_filt =
     (let df_model = filter (\<lambda>r. target_end_date r \<le> eval_date) df_model_raw in
      if \<not> list_all (\<lambda>r. location r \<noteq> None) df_model
      then Inl (AssertionError ''All FIPS locations must be a string'')
      else if length (inc_case df_model) = 0
      then Inr (Skipped ''No inc case forecasts'')
      else if length (filter (\<lambda>r. target_end_date r = eval_date) (inc_case df_model)) = 0
      then Inr (Skipped ''No inc case forecasts for this target end date'')
      else
        (let df_model = horizon_filter df_model in
         if length (remdups (location_quantile_sizes df_model)) \<noteq> 1
         then Inl (AssertionError ''location_quantile_sizes'')
         else
           (let df_model_filt = select_estimate use_point fips_to_evaluate df_model;
                num_locations = length (remdups (map location df_model_filt))
            in if \<not> num_locations \<le> length fips_to_us_state
               then Inl (AssertionError ''num_locations'')
               else if length df_model_filt = 0
               then Inr (Skipped ''No rows after filt, skipping...'')
               else
                 (let df_model_filt_values = groupby_sum location forecast_value df_model_filt;
                      df_model_diffs = series_sub df_model_filt_values df_truth_filt
                  in Inr (Loaded \<lparr>num_locations = num_locations,
                                   diffs_dict = df_model_diffs,
                                   us_projection = map_of df_model_filt_values ''US'',
                                   all_projections = df_model_filt_values\<rparr>)))))"

subsection \<open>Tables\<close>

text \<open>
  A pandas table of floating point cells with string labels: the row labels
  (\<^verbatim>\<open>df.index\<close>), the column labels (\<^verbatim>\<open>df.columns\<close>) and the cell at a row and a
  column, \<open>None\<close> for NaN. The tables of the script are built from dictionaries, so no
  label occurs twice. In the error tables a row is a model and a column is a location.
\<close>

record frame =
  index :: "string list"
  columns :: "string list"
  cell :: "string \<Rightarrow> string \<Rightarrow> real option"

text \<open>\<^verbatim>\<open>mean()\<close> of pandas skips NaN, and is NaN when nothing is left.\<close>

definition mean_skipna :: "real option list \<Rightarrow> real option" where
  "mean_skipna vs =
     (let xs = List.map_filter id vs in
      if xs = [] then None else Some (sum_list xs / real (length xs)))"

subsection \<open>Model Merger\<close>

text \<open>
  One round of the loop over the merge prefixes (lines 310 to 323), for one table: the
  same statements run on \<^verbatim>\<open>df_errors\<close> and on \<^verbatim>\<open>df_errors_us\<close>.
  \<^verbatim>\<open>df.loc[name] = df_avg\<close> overwrites the row \<open>name\<close> when the table has it and
  appends it otherwise.
\<close>

definition merge_prefix :: "string \<Rightarrow> frame \<Rightarrow> frame" where
  "merge_prefix merge_models_prefix df =
     (let mask = filter (str_contains merge_models_prefix) (index df) in
      if length mask > 0
      then
        (let df_avg = (\<lambda>c. mean_skipna (map (\<lambda>m. cell df m c) mask));
             kept = filter (\<lambda>m. \<not> str_contains merge_models_prefix m) (index df);
             combined = merge_models_prefix @ ''-combined''
         in \<lparr>index = (if combined \<in> set kept then kept else kept @ [combined]),
             columns = columns df,
             cell = (\<lambda>m. if m = combined then df_avg else cell df m)\<rparr>)
      else df)"

text \<open>Lines 307 to 323, with the list of prefixes of line 309.\<close>

definition merge_models_prefixes :: "string list" where
  "merge_models_prefixes = [''Imperial'']"

definition model_merger :: "bool \<Rightarrow> frame \<Rightarrow> frame \<Rightarrow> frame \<times> frame" where
  "model_merger merge_models df_errors df_errors_us =
     (if merge_models
      then fold (\<lambda>merge_models_prefix (e, u).
                   (merge_prefix merge_models_prefix e, merge_prefix merge_models_prefix u))
             merge_models_prefixes (df_errors, df_errors_us)
      else (df_errors, df_errors_us))"

subsection \<open>Scorer: the national error and the consistency check\<close>

definition sub_nan :: "real option \<Rightarrow> real option \<Rightarrow> real option" where
  "sub_nan a b = (case (a, b) of (Some x, Some y) \<Rightarrow> Some (x - y) | _ \<Rightarrow> None)"

definition eq_nan :: "real option \<Rightarrow> real option \<Rightarrow> bool" where
  "eq_nan a b = (case (a, b) of (Some x, Some y) \<Rightarrow> x = y | _ \<Rightarrow> False)"

definition isnan :: "real option \<Rightarrow> bool" where
  "isnan a = (a = None)"

text \<open>Line 325: the column \<^verbatim>\<open>error\<close> of the national table.\<close>

definition add_error_column :: "frame \<Rightarrow> frame" where
  "add_error_column df_errors_us =
     \<lparr>index = index df_errors_us,
      columns = (if ''error'' \<in> set (columns df_errors_us) then columns df_errors_us
                 else columns df_errors_us @ [''error'']),
      cell = (\<lambda>m c. if c = ''error''
                     then sub_nan (cell df_errors_us m ''predicted_cases'')
                            (cell df_errors_us m ''actual_cases'')
                     else cell df_errors_us m c)\<rparr>"

text \<open>Lines 326 and 327. \<^verbatim>\<open>df_errors['US']\<close> raises \<^verbatim>\<open>KeyError\<close> without such a
  column, and the comparison of two series raises \<^verbatim>\<open>ValueError\<close> unless their indexes
  are identical.\<close>

definition consistency_check :: "frame \<Rightarrow> frame \<Rightarrow> error + unit" where
  "consistency_check df_errors_us df_errors =
     (if ''US'' \<notin> set (columns df_errors) then Inl (KeyError ''US'')
      else if index df_errors_us \<noteq> index df_errors
      then Inl (ValueError ''Can only compare identically-labeled Series objects'')
      else if list_all (\<lambda>m. eq_nan (cell df_errors_us m ''error'') (cell df_errors m ''US'')
                             \<or> (isnan (cell df_errors_us m ''error'')
                                 \<and> isnan (cell df_errors m ''US'')))
                (index df_errors_us)
      then Inr ()
      else Inl (AssertionError ''''))"

subsection \<open>Scorer: the per-location table and the imputation of missing values\<close>

text \<open>\<^verbatim>\<open>df.drop(columns=labels)\<close> raises \<^verbatim>\<open>KeyError\<close> when a label is not a column.\<close>

definition drop_columns :: "string list \<Rightarrow> frame \<Rightarrow> error + frame" where
  "drop_columns labels df =
     (if \<not> list_all (\<lambda>l. l \<in> set (columns df)) labels then Inl (KeyError ''not found in axis'')
      else Inr (df\<lparr>columns := filter (\<lambda>c. c \<notin> set labels) (columns df)\<rparr>))"

text \<open>\<^verbatim>\<open>df.notna().sum(axis=1)\<close>, for one row.\<close>

definition notna_count :: "frame \<Rightarrow> string \<Rightarrow> nat" where
  "notna_count df m = length (filter (\<lambda>c. cell df m c \<noteq> None) (columns df))"

definition min_locations_with_projections :: "bool \<Rightarrow> nat" where
  "min_locations_with_projections evaluate_counties = (if evaluate_counties then 2000 else 40)"

text \<open>Line 353: the models with projections for most locations.\<close>

definition filter_models :: "nat \<Rightarrow> frame \<Rightarrow> frame" where
  "filter_models n df = df\<lparr>index := filter (\<lambda>m. notna_count df m > n) (index df)\<rparr>"

definition abs_frame :: "frame \<Rightarrow> frame" where
  "abs_frame df = df\<lparr>cell := (\<lambda>m c. map_option abs (cell df m c))\<rparr>"

text \<open>\<^verbatim>\<open>df.mean()\<close> is the mean along axis 0: one value per column, taken over the rows.\<close>

definition mean_axis0 :: "frame \<Rightarrow> string \<Rightarrow> real option" where
  "mean_axis0 df c = mean_skipna (map (\<lambda>m. cell df m c) (index df))"

text \<open>\<^verbatim>\<open>df.fillna(series)\<close> fills the missing cells of a column with the entry the series
  has for the label of that column.\<close>

definition fillna :: "frame \<Rightarrow> (string \<Rightarrow> real option) \<Rightarrow> frame" where
  "fillna df fill =
     df\<lparr>cell := (\<lambda>m c. case cell df m c of None \<Rightarrow> fill c | Some v \<Rightarrow> Some v)\<rparr>"

text \<open>\<^verbatim>\<open>df.isna().values.sum()\<close>.\<close>

definition isna_sum :: "frame \<Rightarrow> nat" where
  "isna_sum df =
     sum_list (map (\<lambda>m. length (filter (\<lambda>c. cell df m c = None) (columns df))) (index df))"

text \<open>Lines 394 and 395.\<close>

definition impute_missing :: "frame \<Rightarrow> error + frame" where
  "impute_missing df_errors_states =
     (let filled = fillna df_errors_states (mean_axis0 (abs_frame df_errors_states)) in
      if isna_sum filled = 0 then Inr filled
      else Inl (AssertionError ''NaN still in errors''))"

text \<open>The statements of \<^verbatim>\<open>main\<close> that compute \<^verbatim>\<open>df_errors_states\<close> from
  \<^verbatim>\<open>df_errors\<close>: lines 347 to 353, then 394 and 395.\<close>

definition scorer_errors_states :: "bool \<Rightarrow> frame \<Rightarrow> error + frame" where
  "scorer_errors_states evaluate_counties df_errors =
     (case drop_columns [''US''] df_errors of
        Inl e \<Rightarrow> Inl e
      | Inr df_errors_states \<Rightarrow>
          impute_missing
            (filter_models (min_locations_with_projections evaluate_counties) df_errors_states))"

text \<open>The imputed value in the words of the specification: the mean absolute error of the
  model itself, over the locations where the model has a value.\<close>

definition model_mean_abs_error :: "frame \<Rightarrow> string \<Rightarrow> real option" where
  "model_mean_abs_error df m = mean_skipna (map (\<lambda>c. map_option abs (cell df m c)) (columns df))"

subsection \<open>Scorer: beat the baseline\<close>

text \<open>A comparison of floating point numbers is false when one of them is NaN.\<close>

definition lt_nan :: "real option \<Rightarrow> real option \<Rightarrow> bool" where
  "lt_nan a b = (case (a, b) of (Some x, Some y) \<Rightarrow> x < y | _ \<Rightarrow> False)"

text \<open>
  Lines 379 to 384 for one model, on the series \<^verbatim>\<open>error-{model_name}\<close> and
  \<^verbatim>\<open>error-COVIDhub-baseline\<close> of \<^verbatim>\<open>df_all\<close>, indexed by location: the comparison,
  \<^verbatim>\<open>convert_dtypes()\<close> (a nullable boolean), and the cells where the error of the model
  is null set to missing.
\<close>

definition beat_baseline_series :: "(string \<Rightarrow> real option) \<Rightarrow> (string \<Rightarrow> real option)
    \<Rightarrow> string \<Rightarrow> bool option" where
  "beat_baseline_series error_model error_baseline =
     (let compared = (\<lambda>loc. lt_nan (map_option abs (error_model loc))
                               (map_option abs (error_baseline loc))
                             \<or> lt_nan (map_option abs (error_model loc)) (Some (1 / 1000)));
          converted = (\<lambda>loc. Some (compared loc))
      in (\<lambda>loc. if error_model loc = None then None else converted loc))"

text \<open>\<^verbatim>\<open>df_errors_raw.loc[model_name]\<close> as a column of \<^verbatim>\<open>df_all\<close>: the row of the model,
  missing at a location that is no column of \<^verbatim>\<open>df_errors_raw\<close>.\<close>

definition error_series :: "frame \<Rightarrow> string \<Rightarrow> string \<Rightarrow> real option" where
  "error_series df_errors_raw model_name loc =
     (if loc \<in> set (columns df_errors_raw) then cell df_errors_raw model_name loc else None)"

text \<open>
  Lines 366 to 384: the columns \<^verbatim>\<open>beat_baseline-{model_name}\<close> added to \<^verbatim>\<open>df_all\<close>,
  from the labels of its columns and the raw error table. \<^verbatim>\<open>.loc\<close> raises
  \<^verbatim>\<open>KeyError\<close> for a name that is no row of the error table.
\<close>

definition beat_baseline_columns :: "string list \<Rightarrow> frame
    \<Rightarrow> error + (string \<times> (string \<Rightarrow> bool option)) list" where
  "beat_baseline_columns df_all_columns df_errors_raw =
     (let model_names = filter (\<lambda>c. CHR ''-'' \<in> set c) df_all_columns in
      if \<not> list_all (\<lambda>m. m \<in> set (index df_errors_raw)) (''COVIDhub-baseline'' # model_names)
      then Inl (KeyError ''model'')
      else Inr (map (\<lambda>model_name.
                       (''beat_baseline-'' @ model_name,
                        beat_baseline_series (error_series df_errors_raw model_name)
                          (error_series df_errors_raw ''COVIDhub-baseline'')))
                  (filter (\<lambda>model_name. model_name \<noteq> ''COVIDhub-baseline'') model_names)))"

subsection \<open>The evaluation universe: the locations table\<close>

text \<open>
  A row of \<^verbatim>\<open>locations.csv\<close>, read with \<^verbatim>\<open>dtype=str\<close>: the column \<^verbatim>\<open>location\<close>
  (here \<open>loc_code\<close>), \<^verbatim>\<open>abbreviation\<close> (here \<open>abbr\<close>), missing for a county, and
  \<^verbatim>\<open>location_name\<close>.
\<close>

record location_row =
  loc_code :: string
  abbr :: "string option"
  location_name :: string

text \<open>A Python dictionary: keys in the order of their first insertion, each with the
  value of its last assignment.\<close>

fun dict_set :: "'k \<Rightarrow> 'v \<Rightarrow> ('k \<times> 'v) list \<Rightarrow> ('k \<times> 'v) list" where
  "dict_set k v [] = [(k, v)]"
| "dict_set k v ((a, b) # d) = (if a = k then (a, v) # d else (a, b) # dict_set k v d)"

definition to_dict :: "('k \<times> 'v) list \<Rightarrow> ('k \<times> 'v) list" where
  "to_dict items = fold (\<lambda>(k, v) d. dict_set k v d) items []"

definition US_TERRITORIES :: "string list" where
  "US_TERRITORIES = [''AS'', ''GU'', ''MP'', ''PR'', ''VI'', ''UM'']"

text \<open>
  Lines 117 to 137. The result is the pair \<^verbatim>\<open>(fips_to_us_state, fips_to_evaluate)\<close>.
  The loop of lines 130 to 133 assigns to keys the dictionary already has, so it changes
  values only. A dictionary lookup of a key that is absent raises \<^verbatim>\<open>KeyError\<close>.
\<close>

definition load_locations :: "bool \<Rightarrow> location_row list
    \<Rightarrow> error + ((string \<times> string) list \<times> string list)" where
  "load_locations evaluate_counties df_loc_raw =
     (if evaluate_counties
      then
        (let df_loc = filter (\<lambda>r. abbr r = None \<or> loc_code r = ''US'') df_loc_raw;
             fips_to_us_state = to_dict (map (\<lambda>r. (loc_code r, loc_code r)) df_loc);
             fips_to_evaluate = filter (\<lambda>i. i \<noteq> ''11001'') (map fst fips_to_us_state)
         in Inr (fips_to_us_state, fips_to_evaluate))
      else
        (let df_loc = filter (\<lambda>r. abbr r \<noteq> None) df_loc_raw;
             abbr_to_location_name =
               to_dict (List.map_filter
                          (\<lambda>r. map_option (\<lambda>a. (a, location_name r)) (abbr r)) df_loc);
             abbr_to_fips =
               to_dict (List.map_filter
                          (\<lambda>r. map_option (\<lambda>a. (a, loc_code r)) (abbr r)) df_loc)
         in if ''US'' \<notin> set (map fst abbr_to_location_name)
            then Inl (AssertionError ''Missing US location name'')
            else if length df_loc \<noteq> 58 then Inl (AssertionError ''Missing locations'')
            else
              (let abbr_to_fips =
                     map (\<lambda>(k, v). (k, if length v = 1 then ''0'' @ v else v)) abbr_to_fips;
                   regions_to_evaluate =
                     filter (\<lambda>s. s \<notin> set US_TERRITORIES) (map fst abbr_to_location_name)
               in case (those (map (\<lambda>(k, v). map_option (\<lambda>n. (v, n))
                                                (map_of abbr_to_location_name k))
                                 abbr_to_fips),
                        those (map (\<lambda>x. if x = ''US'' then Some ''US'' else map_of abbr_to_fips x)
                                 regions_to_evaluate)) of
                    (Some items, Some fips_to_evaluate) \<Rightarrow> Inr (to_dict items, fips_to_evaluate)
                  | _ \<Rightarrow> Inl (KeyError ''abbreviation''))))"

subsection \<open>Example inputs\<close>

text \<open>A table given by its column labels and its rows, for the examples.\<close>

definition frame_of :: "string list \<Rightarrow> (string \<times> real option list) list \<Rightarrow> frame" where
  "frame_of cols rows =
     \<lparr>index = map fst rows,
      columns = cols,
      cell = (\<lambda>m c. case map_of rows m of
                       None \<Rightarrow> None
                     | Some vs \<Rightarrow> (case map_of (zip cols vs) c of None \<Rightarrow> None | Some v \<Rightarrow> v))\<rparr>"

text \<open>Daily cases of 01 and US around the window of 2020-06-14 (ordinal 737590) to
  2020-06-20 (ordinal 737596).\<close>

definition truth_example :: "truth_row list" where
  "truth_example =
     [\<lparr>t_date = 737589, t_location = Some ''01'', daily_cases = Some 5\<rparr>,
      \<lparr>t_date = 737590, t_location = Some ''01'', daily_cases = Some 10\<rparr>,
      \<lparr>t_date = 737590, t_location = Some ''US'', daily_cases = Some 100\<rparr>,
      \<lparr>t_date = 737596, t_location = Some ''01'', daily_cases = Some 20\<rparr>,
      \<lparr>t_date = 737596, t_location = Some ''US'', daily_cases = Some 200\<rparr>,
      \<lparr>t_date = 737597, t_location = Some ''US'', daily_cases = Some 400\<rparr>]"

definition example_row :: "string \<Rightarrow> date \<Rightarrow> string \<Rightarrow> string \<Rightarrow> real option \<Rightarrow> real
    \<Rightarrow> forecast_row" where
  "example_row tgt ted loc typ q v =
     \<lparr>forecast_date = 737591, target = tgt, target_end_date = ted, location = Some loc,
      row_type = typ, quantile = q, forecast_value = Some v\<rparr>"




text \<open>One week of forecasts with two rows per location.\<close>

definition estimate_example :: "forecast_row list" where
  "estimate_example =
    [example_row ''1 wk ahead inc case'' 737596 ''01'' ''point'' None 10,
     example_row ''1 wk ahead inc case'' 737596 ''01'' ''quantile'' (Some (1/4)) 8,
     example_row ''1 wk ahead inc case'' 737596 ''02'' ''quantile'' (Some (1/2)) 20,
     example_row ''1 wk ahead inc case'' 737596 ''02'' ''quantile'' (Some (1/4)) 18,
     example_row ''1 wk ahead inc case'' 737596 ''US'' ''point'' None 30,
     example_row ''1 wk ahead inc case'' 737596 ''US'' ''quantile'' (Some (1/2)) 31]"

text \<open>A per-location error table and a national table with two \<^verbatim>\<open>Imperial\<close> models.\<close>

definition merger_example :: frame where
  "merger_example =
     frame_of [''Alabama'', ''Alaska'', ''US'']
       [(''COVIDhub-baseline'', [Some 1, Some 2, Some 3]),
        (''Imperial-ensemble1'', [Some 10, None, Some 30]),
        (''Imperial-ensemble2'', [Some 20, None, Some 50]),
        (''YYG-ParamSearch'', [Some (-4), Some 5, None])]"

definition merger_example_us :: frame where
  "merger_example_us =
     frame_of [''predicted_cases'', ''actual_cases'']
       [(''COVIDhub-baseline'', [Some 103, Some 100]),
        (''Imperial-ensemble1'', [Some 130, Some 100]),
        (''Imperial-ensemble2'', [Some 150, Some 100]),
        (''YYG-ParamSearch'', [None, Some 100])]"

definition state_names :: "string list" where
  "state_names =
    [''Alabama'', ''Alaska'', ''Arizona'', ''Arkansas'', ''California'', ''Colorado'',
     ''Connecticut'', ''Delaware'', ''District of Columbia'', ''Florida'', ''Georgia'',
     ''Hawaii'', ''Idaho'', ''Illinois'', ''Indiana'', ''Iowa'', ''Kansas'', ''Kentucky'',
     ''Louisiana'', ''Maine'', ''Maryland'', ''Massachusetts'', ''Michigan'', ''Minnesota'',
     ''Mississippi'', ''Missouri'', ''Montana'', ''Nebraska'', ''Nevada'', ''New Hampshire'',
     ''New Jersey'', ''New Mexico'', ''New York'', ''North Carolina'', ''North Dakota'',
     ''Ohio'', ''Oklahoma'', ''Oregon'', ''Pennsylvania'', ''Rhode Island'',
     ''South Carolina'', ''South Dakota'', ''Tennessee'', ''Texas'', ''Utah'', ''Vermont'',
     ''Virginia'', ''Washington'', ''West Virginia'', ''Wisconsin'', ''Wyoming'']"

text \<open>Two models over the 51 states and the US: \<^verbatim>\<open>YYG-ParamSearch\<close> has no value for
  Alabama and the error 4 elsewhere; the baseline has the error -2 for Alabama and 10
  elsewhere.\<close>

definition scorer_example :: frame where
  "scorer_example =
     \<lparr>index = [''COVIDhub-baseline'', ''YYG-ParamSearch''],
      columns = state_names @ [''US''],
      cell = (\<lambda>m c. if m = ''YYG-ParamSearch'' then (if c = ''Alabama'' then None else Some 4)
                     else if m = ''COVIDhub-baseline''
                     then (if c = ''Alabama'' then Some (- 2) else Some 10)
                     else None)\<rparr>"

text \<open>The example after lines 351 and 353: without the column \<^verbatim>\<open>US\<close>, and with the
  models that have more than 40 values.\<close>

definition scorer_example_states :: frame where
  "scorer_example_states = filter_models 40 (scorer_example\<lparr>columns := state_names\<rparr>)"

text \<open>A raw error table of the baseline and one model.\<close>

definition beat_example :: frame where
  "beat_example =
     frame_of [''Alabama'', ''Alaska'', ''Arizona'', ''US'']
       [(''COVIDhub-baseline'', [Some (4 / 10000), Some 7, None, Some (- 5)]),
        (''YYG-ParamSearch'', [Some (- 5 / 10000), Some 7, Some 9, None])]"

text \<open>A locations table: the 58 locations with an abbreviation, the codes below 10
  written without their zero, and two counties.\<close>

definition locations_example :: "location_row list" where
  "locations_example =
     map (\<lambda>(c, a, n). \<lparr>loc_code = c, abbr = Some a, location_name = n\<rparr>)
       [(''US'', ''US'', ''US''), (''1'', ''AL'', ''Alabama''), (''2'', ''AK'', ''Alaska''),
        (''4'', ''AZ'', ''Arizona''), (''5'', ''AR'', ''Arkansas''),
        (''6'', ''CA'', ''California''), (''8'', ''CO'', ''Colorado''),
        (''9'', ''CT'', ''Connecticut''), (''10'', ''DE'', ''Delaware''),
        (''11'', ''DC'', ''District of Columbia''), (''12'', ''FL'', ''Florida''),
        (''13'', ''GA'', ''Georgia''), (''15'', ''HI'', ''Hawaii''), (''16'', ''ID'', ''Idaho''),
        (''17'', ''IL'', ''Illinois''), (''18'', ''IN'', ''Indiana''), (''19'', ''IA'', ''Iowa''),
        (''20'', ''KS'', ''Kansas''), (''21'', ''KY'', ''Kentucky''),
        (''22'', ''LA'', ''Louisiana''), (''23'', ''ME'', ''Maine''),
        (''24'', ''MD'', ''Maryland''), (''25'', ''MA'', ''Massachusetts''),
        (''26'', ''MI'', ''Michigan''), (''27'', ''MN'', ''Minnesota''),
        (''28'', ''MS'', ''Mississippi''), (''29'', ''MO'', ''Missouri''),
        (''30'', ''MT'', ''Montana''), (''31'', ''NE'', ''Nebraska''),
        (''32'', ''NV'', ''Nevada''), (''33'', ''NH'', ''New Hampshire''),
        (''34'', ''NJ'', ''New Jersey''), (''35'', ''NM'', ''New Mexico''),
        (''36'', ''NY'', ''New York''), (''37'', ''NC'', ''North Carolina''),
        (''38'', ''ND'', ''North Dakota''), (''39'', ''OH'', ''Ohio''),
        (''40'', ''OK'', ''Oklahoma''), (''41'', ''OR'', ''Oregon''),
        (''42'', ''PA'', ''Pennsylvania''), (''44'', ''RI'', ''Rhode Island''),
        (''45'', ''SC'', ''South Carolina''), (''46'', ''SD'', ''South Dakota''),
        (''47'', ''TN'', ''Tennessee''), (''48'', ''TX'', ''Texas''), (''49'', ''UT'', ''Utah''),
        (''50'', ''VT'', ''Vermont''), (''51'', ''VA'', ''Virginia''),
        (''53'', ''WA'', ''Washington''), (''54'', ''WV'', ''West Virginia''),
        (''55'', ''WI'', ''Wisconsin''), (''56'', ''WY'', ''Wyoming''),
        (''60'', ''AS'', ''American Samoa''), (''66'', ''GU'', ''Guam''),
        (''69'', ''MP'', ''Northern Mariana Islands''), (''72'', ''PR'', ''Puerto Rico''),
        (''74'', ''UM'', ''U.S. Minor Outlying Islands''), (''78'', ''VI'', ''Virgin Islands'')]
     @ [\<lparr>loc_code = ''01001'', abbr = None, location_name = ''Autauga County''\<rparr>,
        \<lparr>loc_code = ''11001'', abbr = None, location_name = ''District of Columbia''\<rparr>]"

section \<open>Verification\<close>

subsection \<open>File Selector\<close>

lemma find_loop_skip:
  "qualifying_date p g = None \<Longrightarrow> find_loop p (g # fs) (lf, ld) = find_loop p fs (lf, ld)"
  by (auto simp: qualifying_date_def file_date_of_def in_window_def Let_def
      split: option.splits if_splits)

lemma find_loop_take:
  "qualifying_date p g = Some e \<Longrightarrow> (case ld of None \<Rightarrow> True | Some lvd \<Rightarrow> e > lvd) \<Longrightarrow>
   find_loop p (g # fs) (lf, ld) = find_loop p fs (Some g, Some e)"
  by (auto simp: qualifying_date_def file_date_of_def in_window_def Let_def
      split: option.splits if_splits)

lemma find_loop_keep:
  "qualifying_date p g = Some e \<Longrightarrow> e \<le> d0 \<Longrightarrow>
   find_loop p (g # fs) (lf, Some d0) = find_loop p fs (lf, Some d0)"
  by (auto simp: qualifying_date_def file_date_of_def in_window_def Let_def
      split: option.splits if_splits)

declare find_loop.simps(2) [simp del]

lemma latest_first_Cons:
  assumes "latest_first p fs f d" and "\<And>e. qualifying_date p g = Some e \<Longrightarrow> e < d"
  shows "latest_first p (g # fs) f d"
proof -
  from assms(1) obtain pre post where pp: "fs = pre @ f # post" "qualifying_date p f = Some d"
    "\<forall>g\<in>set pre. \<forall>e. qualifying_date p g = Some e \<longrightarrow> e < d"
    "\<forall>g\<in>set post. \<forall>e. qualifying_date p g = Some e \<longrightarrow> e \<le> d"
    unfolding latest_first_def by blast
  have 1: "g # fs = (g # pre) @ f # post" using pp(1) by simp
  have 2: "\<forall>h\<in>set (g # pre). \<forall>e. qualifying_date p h = Some e \<longrightarrow> e < d"
    using pp(3) assms(2) by simp
  show ?thesis unfolding latest_first_def
    apply (rule exI[of _ "g # pre"])
    apply (rule exI[of _ post])
    using 1 2 pp(2,4) by simp
qed

lemma latest_first_head:
  assumes "qualifying_date p g = Some e"
    and "\<forall>h\<in>set fs. \<forall>e'. qualifying_date p h = Some e' \<longrightarrow> e' \<le> e"
  shows "latest_first p (g # fs) g e"
  unfolding latest_first_def
  apply (rule exI[of _ "[]"])
  apply (rule exI[of _ fs])
  using assms by simp

lemma find_loop_from_Some:
  "\<exists>f d. find_loop p fs (Some f0, Some d0) = (Some f, Some d) \<and> loop_result p fs f0 d0 f d"
proof (induction fs arbitrary: f0 d0)
  case Nil
  show ?case by (simp add: loop_result_def)
next
  case (Cons g fs)
  show ?case
  proof (cases "qualifying_date p g")
    case None
    have st: "find_loop p (g # fs) (Some f0, Some d0) = find_loop p fs (Some f0, Some d0)"
      by (rule find_loop_skip[OF None])
    from Cons.IH[of f0 d0] obtain f d where
      r: "find_loop p fs (Some f0, Some d0) = (Some f, Some d)" and c: "loop_result p fs f0 d0 f d"
      by blast
    have "loop_result p (g # fs) f0 d0 f d"
      using c None unfolding loop_result_def
      by (auto intro: latest_first_Cons)
    with st r show ?thesis by simp
  next
    case (Some e)
    show ?thesis
    proof (cases "e \<le> d0")
      case True
      have st: "find_loop p (g # fs) (Some f0, Some d0) = find_loop p fs (Some f0, Some d0)"
        by (rule find_loop_keep[OF Some True])
      from Cons.IH[of f0 d0] obtain f d where
        r: "find_loop p fs (Some f0, Some d0) = (Some f, Some d)" and c: "loop_result p fs f0 d0 f d"
        by blast
      have "loop_result p (g # fs) f0 d0 f d"
        using c Some True unfolding loop_result_def
        by (auto intro!: latest_first_Cons)
      with st r show ?thesis by simp
    next
      case False
      then have gt: "d0 < e" by simp
      have st: "find_loop p (g # fs) (Some f0, Some d0) = find_loop p fs (Some g, Some e)"
        using find_loop_take[OF Some, of "Some d0"] gt by simp
      from Cons.IH[of g e] obtain f d where
        r: "find_loop p fs (Some g, Some e) = (Some f, Some d)" and c: "loop_result p fs g e f d"
        by blast
      have "d0 < d \<and> latest_first p (g # fs) f d"
      proof (cases "f = g \<and> d = e \<and> (\<forall>h\<in>set fs. \<forall>e'. qualifying_date p h = Some e' \<longrightarrow> e' \<le> e)")
        case True
        then show ?thesis using gt latest_first_head[OF Some] by simp
      next
        case False
        with c have a: "e < d" "latest_first p fs f d" unfolding loop_result_def by auto
        have "latest_first p (g # fs) f d"
          by (rule latest_first_Cons[OF a(2)]) (use Some a(1) in simp)
        then show ?thesis using gt a(1) by simp
      qed
      then have "loop_result p (g # fs) f0 d0 f d" unfolding loop_result_def by simp
      with st r show ?thesis by simp
    qed
  qed
qed

lemma find_loop_from_None:
  "(find_loop p fs (None, None) = (None, None) \<and> (\<forall>g\<in>set fs. qualifying_date p g = None))
   \<or> (\<exists>f d. find_loop p fs (None, None) = (Some f, Some d) \<and> latest_first p fs f d)"
proof (induction fs)
  case Nil
  show ?case by simp
next
  case (Cons g fs)
  show ?case
  proof (cases "qualifying_date p g")
    case None
    have st: "find_loop p (g # fs) (None, None) = find_loop p fs (None, None)"
      by (rule find_loop_skip[OF None])
    from Cons.IH show ?thesis
    proof
      assume "find_loop p fs (None, None) = (None, None) \<and> (\<forall>g\<in>set fs. qualifying_date p g = None)"
      with st None show ?thesis by simp
    next
      assume "\<exists>f d. find_loop p fs (None, None) = (Some f, Some d) \<and> latest_first p fs f d"
      then obtain f d where r: "find_loop p fs (None, None) = (Some f, Some d)"
        and l: "latest_first p fs f d" by blast
      have "latest_first p (g # fs) f d"
        by (rule latest_first_Cons[OF l]) (use None in simp)
      with st r show ?thesis by simp
    qed
  next
    case (Some e)
    have st: "find_loop p (g # fs) (None, None) = find_loop p fs (Some g, Some e)"
      using find_loop_take[OF Some, of None] by simp
    from find_loop_from_Some[of p fs g e] obtain f d where
      r: "find_loop p fs (Some g, Some e) = (Some f, Some d)" and c: "loop_result p fs g e f d"
      by blast
    have "latest_first p (g # fs) f d"
    proof (cases "f = g \<and> d = e \<and> (\<forall>h\<in>set fs. \<forall>e'. qualifying_date p h = Some e' \<longrightarrow> e' \<le> e)")
      case True
      then show ?thesis using latest_first_head[OF Some] by simp
    next
      case False
      with c have a: "e < d" "latest_first p fs f d" unfolding loop_result_def by auto
      show ?thesis
        by (rule latest_first_Cons[OF a(2)]) (use Some a(1) in simp)
    qed
    with st r show ?thesis by simp
  qed
qed

lemma find_last_projections_sorted:
  "sorted fnames \<Longrightarrow> find_last_projections fnames p = Inr (find_loop p fnames (None, None))"
  by (simp add: find_last_projections_def sorted_sort_id)

lemma qualifying_date_iff:
  "qualifying_date p g = Some e \<longleftrightarrow>
     file_date_of g = Some e \<and> e \<le> p \<and> p - e \<le> (if date_2020_07_20 \<le> p then 6 else 3)"
  by (auto simp: qualifying_date_def in_window_def split: option.splits)

text \<open>
  Claim C2, as the code has it. For a sorted list of file names and any projection date,
  \<^verbatim>\<open>find_last_projections\<close> returns \<open>(None, None)\<close> when no file qualifies under the
  tolerance window; otherwise it returns a qualifying file \<open>f\<close> with its date \<open>d\<close> such
  that every qualifying file after \<open>f\<close> in the list has a date at most \<open>d\<close> and every
  qualifying file before \<open>f\<close> has a date strictly below \<open>d\<close>: the latest date wins, and
  among the files that share the latest date the first of the list is returned. On the
  files \<^verbatim>\<open>2020-06-01-A-B.csv\<close>, \<^verbatim>\<open>2020-06-03-A-B.csv\<close> and the projection date
  2020-06-03 the file of 06-03 is returned.
\<close>

theorem find_last_projections_latest_then_earliest:
  assumes "sorted fnames"
  shows "((find_last_projections fnames proj_date = Inr (None, None)
            \<and> (\<forall>g\<in>set fnames. qualifying_date proj_date g = None))
          \<or> (\<exists>pre f post d. fnames = pre @ f # post
                \<and> find_last_projections fnames proj_date = Inr (Some f, Some d)
                \<and> qualifying_date proj_date f = Some d
                \<and> (\<forall>g\<in>set pre. \<forall>e. qualifying_date proj_date g = Some e \<longrightarrow> e < d)
                \<and> (\<forall>g\<in>set post. \<forall>e. qualifying_date proj_date g = Some e \<longrightarrow> e \<le> d)))
         \<and> mk_date 2020 6 3 = Some 737579
         \<and> find_last_projections [''2020-06-01-A-B.csv'', ''2020-06-03-A-B.csv''] 737579
             = Inr (Some ''2020-06-03-A-B.csv'', Some 737579)"
proof -
  have a: "mk_date 2020 6 3 = Some 737579" by code_simp
  have b: "find_last_projections [''2020-06-01-A-B.csv'', ''2020-06-03-A-B.csv''] 737579
             = Inr (Some ''2020-06-03-A-B.csv'', Some 737579)" by code_simp
  have c: "(find_last_projections fnames proj_date = Inr (None, None)
            \<and> (\<forall>g\<in>set fnames. qualifying_date proj_date g = None))
          \<or> (\<exists>pre f post d. fnames = pre @ f # post
                \<and> find_last_projections fnames proj_date = Inr (Some f, Some d)
                \<and> qualifying_date proj_date f = Some d
                \<and> (\<forall>g\<in>set pre. \<forall>e. qualifying_date proj_date g = Some e \<longrightarrow> e < d)
                \<and> (\<forall>g\<in>set post. \<forall>e. qualifying_date proj_date g = Some e \<longrightarrow> e \<le> d))"
    using find_loop_from_None[of proj_date fnames]
    unfolding find_last_projections_sorted[OF assms] latest_first_def
    by (elim disjE exE conjE) (simp, blast)
  from a b c show ?thesis by simp
qed

text \<open>Witness of C2: three sorted files, two of them of the projection date.\<close>

theorem find_last_projections_latest_then_earliest_witness:
  "sorted [''d/2020-05-30-A-B.csv'', ''d/2020-06-01-A-B.csv'', ''d/2020-06-01-A-C.csv'']
   \<and> find_last_projections
        [''d/2020-05-30-A-B.csv'', ''d/2020-06-01-A-B.csv'', ''d/2020-06-01-A-C.csv''] 737577
       = Inr (Some ''d/2020-06-01-A-B.csv'', Some 737577)"
proof -
  have s: "sorted [''d/2020-05-30-A-B.csv'', ''d/2020-06-01-A-B.csv'', ''d/2020-06-01-A-C.csv'']"
    by code_simp
  have e: "find_last_projections
        [''d/2020-05-30-A-B.csv'', ''d/2020-06-01-A-B.csv'', ''d/2020-06-01-A-C.csv''] 737577
       = Inr (Some ''d/2020-06-01-A-B.csv'', Some 737577)" by code_simp
  show ?thesis
    using find_last_projections_latest_then_earliest[OF s, of 737577] e s by simp
qed

text \<open>
  Counterexample to C2 as the specification words it (of two qualifying files of one date
  the later of the list is returned): both files below are of 2020-06-01, both qualify for
  the projection date 2020-06-01 (ordinal 737577), and the selector returns the first,
  because the loop replaces its choice only on a strictly later date.
\<close>

theorem find_last_projections_same_date_counterexample:
  "sorted [''2020-06-01-A-B.csv'', ''2020-06-01-A-C.csv'']
   \<and> qualifying_date 737577 ''2020-06-01-A-B.csv'' = Some 737577
   \<and> qualifying_date 737577 ''2020-06-01-A-C.csv'' = Some 737577
   \<and> find_last_projections [''2020-06-01-A-B.csv'', ''2020-06-01-A-C.csv''] 737577
       = Inr (Some ''2020-06-01-A-B.csv'', Some 737577)
   \<and> find_last_projections [''2020-06-01-A-B.csv'', ''2020-06-01-A-C.csv''] 737577
       \<noteq> Inr (Some ''2020-06-01-A-C.csv'', Some 737577)"
  by code_simp

text \<open>
  Claim C3. For a sorted list of file names and any projection date the selector returns
  either a file of the list whose embedded date \<open>d\<close> satisfies \<open>d \<le> proj_date\<close> and
  \<open>proj_date - d \<le> tolerance\<close>, where the tolerance is 6 days from 2020-07-20 on and 3 days
  before, or \<open>(None, None)\<close>, and then no file of the list is inside the window. A file
  dated 4 days before a projection date earlier than 2020-07-20 is never the one
  returned; from 2020-07-20 on a file dated 6 days before is returned when it is the only
  candidate, and a file dated 7 days before is never returned.
\<close>

theorem find_last_projections_tolerance:
  assumes "sorted fnames"
  shows "(\<exists>r. find_last_projections fnames proj_date = Inr r
            \<and> (case r of
                 (Some f, Some d) \<Rightarrow>
                    f \<in> set fnames \<and> file_date_of f = Some d \<and> d \<le> proj_date
                    \<and> proj_date - d \<le> (if date_2020_07_20 \<le> proj_date then 6 else 3)
               | (None, None) \<Rightarrow>
                    (\<forall>g\<in>set fnames. \<forall>e. file_date_of g = Some e \<longrightarrow>
                       \<not> (e \<le> proj_date
                          \<and> proj_date - e \<le> (if date_2020_07_20 \<le> proj_date then 6 else 3)))
               | _ \<Rightarrow> False))
         \<and> mk_date 2020 7 20 = Some date_2020_07_20
         \<and> (\<forall>f r. proj_date < date_2020_07_20 \<and> file_date_of f = Some (proj_date - 4)
                \<longrightarrow> find_last_projections fnames proj_date \<noteq> Inr (Some f, r))
         \<and> (\<forall>f. date_2020_07_20 \<le> proj_date \<and> file_date_of f = Some (proj_date - 6)
                \<longrightarrow> find_last_projections [f] proj_date = Inr (Some f, Some (proj_date - 6)))
         \<and> (\<forall>f r. file_date_of f = Some (proj_date - 7)
                \<longrightarrow> find_last_projections fnames proj_date \<noteq> Inr (Some f, r))"
proof -
  have c: "(find_loop proj_date fnames (None, None) = (None, None)
            \<and> (\<forall>g\<in>set fnames. qualifying_date proj_date g = None))
          \<or> (\<exists>f d. find_loop proj_date fnames (None, None) = (Some f, Some d)
                \<and> f \<in> set fnames \<and> qualifying_date proj_date f = Some d)"
    using find_loop_from_None[of proj_date fnames] unfolding latest_first_def by auto
  have 1: "\<exists>r. find_last_projections fnames proj_date = Inr r
            \<and> (case r of
                 (Some f, Some d) \<Rightarrow>
                    f \<in> set fnames \<and> file_date_of f = Some d \<and> d \<le> proj_date
                    \<and> proj_date - d \<le> (if date_2020_07_20 \<le> proj_date then 6 else 3)
               | (None, None) \<Rightarrow>
                    (\<forall>g\<in>set fnames. \<forall>e. file_date_of g = Some e \<longrightarrow>
                       \<not> (e \<le> proj_date
                          \<and> proj_date - e \<le> (if date_2020_07_20 \<le> proj_date then 6 else 3)))
               | _ \<Rightarrow> False)"
    using c
  proof
    assume a: "find_loop proj_date fnames (None, None) = (None, None)
            \<and> (\<forall>g\<in>set fnames. qualifying_date proj_date g = None)"
    have "\<forall>g\<in>set fnames. \<forall>e. file_date_of g = Some e \<longrightarrow>
                       \<not> (e \<le> proj_date
                          \<and> proj_date - e \<le> (if date_2020_07_20 \<le> proj_date then 6 else 3))"
    proof (intro ballI allI impI)
      fix g e assume "g \<in> set fnames" "file_date_of g = Some e"
      with a have "qualifying_date proj_date g = None" by simp
      with \<open>file_date_of g = Some e\<close> show "\<not> (e \<le> proj_date
            \<and> proj_date - e \<le> (if date_2020_07_20 \<le> proj_date then 6 else 3))"
        by (simp add: qualifying_date_def in_window_def split: if_splits)
    qed
    with a show ?thesis by (simp add: find_last_projections_sorted[OF assms])
  next
    assume "\<exists>f d. find_loop proj_date fnames (None, None) = (Some f, Some d)
                \<and> f \<in> set fnames \<and> qualifying_date proj_date f = Some d"
    then obtain f d where r: "find_loop proj_date fnames (None, None) = (Some f, Some d)"
      and m: "f \<in> set fnames" and q: "qualifying_date proj_date f = Some d" by blast
    from q have "file_date_of f = Some d \<and> d \<le> proj_date
        \<and> proj_date - d \<le> (if date_2020_07_20 \<le> proj_date then 6 else 3)"
      by (simp only: qualifying_date_iff)
    with r m show ?thesis by (simp add: find_last_projections_sorted[OF assms])
  qed
  have sel: "\<And>f r. find_last_projections fnames proj_date = Inr (Some f, r)
      \<Longrightarrow> \<exists>d. qualifying_date proj_date f = Some d"
    using c by (auto simp: find_last_projections_sorted[OF assms])
  have 2: "mk_date 2020 7 20 = Some date_2020_07_20" by code_simp
  have 3: "\<forall>f r. proj_date < date_2020_07_20 \<and> file_date_of f = Some (proj_date - 4)
                \<longrightarrow> find_last_projections fnames proj_date \<noteq> Inr (Some f, r)"
  proof (intro allI impI notI)
    fix f r assume h: "proj_date < date_2020_07_20 \<and> file_date_of f = Some (proj_date - 4)"
      and "find_last_projections fnames proj_date = Inr (Some f, r)"
    from sel[OF this(2)] obtain d where "qualifying_date proj_date f = Some d" by blast
    with h show False by (auto simp: qualifying_date_iff)
  qed
  have 4: "\<forall>f. date_2020_07_20 \<le> proj_date \<and> file_date_of f = Some (proj_date - 6)
                \<longrightarrow> find_last_projections [f] proj_date = Inr (Some f, Some (proj_date - 6))"
  proof (intro allI impI)
    fix f assume h: "date_2020_07_20 \<le> proj_date \<and> file_date_of f = Some (proj_date - 6)"
    then have q: "qualifying_date proj_date f = Some (proj_date - 6)"
      by (simp add: qualifying_date_iff)
    have "find_loop proj_date [f] (None, None) = find_loop proj_date [] (Some f, Some (proj_date - 6))"
      using find_loop_take[OF q, of None] by simp
    then show "find_last_projections [f] proj_date = Inr (Some f, Some (proj_date - 6))"
      by (simp add: find_last_projections_def)
  qed
  have 5: "\<forall>f r. file_date_of f = Some (proj_date - 7)
                \<longrightarrow> find_last_projections fnames proj_date \<noteq> Inr (Some f, r)"
  proof (intro allI impI notI)
    fix f r assume h: "file_date_of f = Some (proj_date - 7)"
      and "find_last_projections fnames proj_date = Inr (Some f, r)"
    from sel[OF this(2)] obtain d where "qualifying_date proj_date f = Some d" by blast
    with h show False by (auto simp: qualifying_date_iff split: if_splits)
  qed
  from 1 2 3 4 5 show ?thesis by blast
qed

text \<open>Witness of C3: the projection dates 2020-07-20 (ordinal 737626) and 2020-07-13
  (ordinal 737619), with files 7, 6 and 4 days older.\<close>

theorem find_last_projections_tolerance_witness:
  "sorted [''2020-07-13-A-B.csv'', ''2020-07-14-A-B.csv'']
   \<and> file_date_of ''2020-07-13-A-B.csv'' = Some (737626 - 7)
   \<and> file_date_of ''2020-07-14-A-B.csv'' = Some (737626 - 6)
   \<and> find_last_projections [''2020-07-13-A-B.csv'', ''2020-07-14-A-B.csv''] 737626
       = Inr (Some ''2020-07-14-A-B.csv'', Some 737620)
   \<and> find_last_projections [''2020-07-13-A-B.csv''] 737626 = Inr (None, None)
   \<and> sorted [''2020-07-09-A-B.csv'']
   \<and> file_date_of ''2020-07-09-A-B.csv'' = Some (737619 - 4)
   \<and> find_last_projections [''2020-07-09-A-B.csv''] 737619 = Inr (None, None)"
proof -
  have s: "sorted [''2020-07-13-A-B.csv'', ''2020-07-14-A-B.csv'']" by code_simp
  have s2: "sorted [''2020-07-09-A-B.csv'']" by simp
  have d: "file_date_of ''2020-07-13-A-B.csv'' = Some (737626 - 7)"
    "file_date_of ''2020-07-14-A-B.csv'' = Some (737626 - 6)"
    "file_date_of ''2020-07-09-A-B.csv'' = Some (737619 - 4)" by code_simp+
  have e: "find_last_projections [''2020-07-13-A-B.csv'', ''2020-07-14-A-B.csv''] 737626
       = Inr (Some ''2020-07-14-A-B.csv'', Some 737620)"
    "find_last_projections [''2020-07-13-A-B.csv''] 737626 = Inr (None, None)"
    "find_last_projections [''2020-07-09-A-B.csv''] 737619 = Inr (None, None)" by code_simp+
  show ?thesis
    using find_last_projections_tolerance[OF s, of 737626]
      find_last_projections_tolerance[OF s2, of 737619] s s2 d e
    by simp
qed

subsection \<open>Truth Loader\<close>

lemma set_group_keys: "set (group_keys key rows) = {k. \<exists>r\<in>set rows. key r = Some k}"
  by (force simp: group_keys_def List.map_filter_def image_iff)

lemma distinct_group_keys: "distinct (group_keys key rows)"
  by (simp add: group_keys_def)

lemma map_of_filter_tabulate:
  "map_of (filter (\<lambda>(l, v). P l) (map (\<lambda>k. (k, f k)) ks)) k
     = (if k \<in> set ks \<and> P k then Some (f k) else None)"
  by (induction ks) auto

lemma length_filter_tabulate:
  "length (filter (\<lambda>(l, v). P l) (map (\<lambda>k. (k, f k)) ks)) = length (filter P ks)"
  by (induction ks) auto

lemma nansum_window:
  "nansum (map col (filter P rows)) = (\<Sum>r\<leftarrow>filter P rows. case col r of None \<Rightarrow> 0 | Some v \<Rightarrow> v)"
  unfolding nansum_def
  by (induction rows) (auto split: option.splits)

lemma covered_length:
  assumes "distinct ks" and "l \<in> set fips" and "l \<notin> set ks"
  shows "length (filter (\<lambda>k. k \<in> set fips) ks) < length fips"
proof -
  have d: "distinct (filter (\<lambda>k. k \<in> set fips) ks)" using assms(1) by simp
  have "set (filter (\<lambda>k. k \<in> set fips) ks) \<subseteq> set fips - {l}" using assms(3) by auto
  then have "card (set (filter (\<lambda>k. k \<in> set fips) ks)) \<le> card (set fips - {l})"
    by (intro card_mono) auto
  also have "\<dots> < card (set fips)" using assms(2) by (intro card_Diff1_less) auto
  also have "\<dots> \<le> length fips" by (rule card_length)
  finally show ?thesis using distinct_card[OF d] by simp
qed

text \<open>
  Claim C6. The Truth Loader keeps the truth rows whose date lies between the day before
  the projection date and the evaluation date, both included. If no row lies in this
  window the run aborts (assertion "No truth data available"); if the window has rows but
  some location of the evaluation universe has none of them, the run aborts (assertion
  "Missing FIPS in truth"); and whenever the loader returns, its table holds, for every
  location of the universe, the sum of the daily cases of exactly the rows of that
  location inside the window (a missing daily value counts for nothing), and it has no
  other location.
\<close>

theorem truth_loader_window_sum:
  "((\<forall>r\<in>set df_truth_raw. \<not> (proj_date - 1 \<le> t_date r \<and> t_date r \<le> eval_date))
      \<longrightarrow> truth_loader df_truth_raw proj_date eval_date fips_to_evaluate
            = Inl (AssertionError ''No truth data available for eval date''))
   \<and> ((\<exists>r\<in>set df_truth_raw. proj_date - 1 \<le> t_date r \<and> t_date r \<le> eval_date)
        \<and> (\<exists>l\<in>set fips_to_evaluate. \<forall>r\<in>set df_truth_raw.
              proj_date - 1 \<le> t_date r \<and> t_date r \<le> eval_date \<longrightarrow> t_location r \<noteq> Some l)
      \<longrightarrow> truth_loader df_truth_raw proj_date eval_date fips_to_evaluate
            = Inl (AssertionError ''Missing FIPS in truth''))
   \<and> (\<forall>df_truth_filt us_truth.
        truth_loader df_truth_raw proj_date eval_date fips_to_evaluate
          = Inr (df_truth_filt, us_truth)
        \<longrightarrow> (\<forall>l\<in>set fips_to_evaluate.
               map_of df_truth_filt l
                 = Some (\<Sum>r\<leftarrow>filter (\<lambda>r. t_location r = Some l
                                          \<and> proj_date - 1 \<le> t_date r \<and> t_date r \<le> eval_date)
                                   df_truth_raw.
                           case daily_cases r of None \<Rightarrow> 0 | Some v \<Rightarrow> v))
            \<and> fst ` set df_truth_filt = set fips_to_evaluate
            \<and> map_of df_truth_filt ''US'' = Some us_truth)"
proof -
  define W where "W = filter (\<lambda>r. t_date r \<ge> proj_date - 1 \<and> t_date r \<le> eval_date) df_truth_raw"
  define F where "F = filter (\<lambda>(l, v). l \<in> set fips_to_evaluate) (groupby_sum t_location daily_cases W)"
  have tl: "truth_loader df_truth_raw proj_date eval_date fips_to_evaluate =
     (if \<not> length W > 0 then Inl (AssertionError ''No truth data available for eval date'')
      else if length F \<noteq> length fips_to_evaluate then Inl (AssertionError ''Missing FIPS in truth'')
      else (case map_of F ''US'' of None \<Rightarrow> Inl (KeyError ''US'')
            | Some us_truth \<Rightarrow> Inr (F, us_truth)))"
    unfolding truth_loader_def W_def F_def Let_def by simp
  have lenF: "length F = length (filter (\<lambda>k. k \<in> set fips_to_evaluate) (group_keys t_location W))"
    unfolding F_def groupby_sum_def by (rule length_filter_tabulate)
  have keysF: "fst ` set F = {k \<in> set (group_keys t_location W). k \<in> set fips_to_evaluate}"
    unfolding F_def groupby_sum_def by (auto simp: image_iff)
  have mapF: "\<And>l. map_of F l = (if l \<in> set (group_keys t_location W) \<and> l \<in> set fips_to_evaluate
      then Some (nansum (map daily_cases (filter (\<lambda>r. t_location r = Some l) W))) else None)"
    unfolding F_def groupby_sum_def by (rule map_of_filter_tabulate)
  have 1: "(\<forall>r\<in>set df_truth_raw. \<not> (proj_date - 1 \<le> t_date r \<and> t_date r \<le> eval_date))
      \<longrightarrow> truth_loader df_truth_raw proj_date eval_date fips_to_evaluate
            = Inl (AssertionError ''No truth data available for eval date'')"
  proof
    assume "\<forall>r\<in>set df_truth_raw. \<not> (proj_date - 1 \<le> t_date r \<and> t_date r \<le> eval_date)"
    then have "W = []" unfolding W_def by (simp add: filter_empty_conv)
    then show "truth_loader df_truth_raw proj_date eval_date fips_to_evaluate
            = Inl (AssertionError ''No truth data available for eval date'')"
      by (simp add: tl)
  qed
  have 2: "(\<exists>r\<in>set df_truth_raw. proj_date - 1 \<le> t_date r \<and> t_date r \<le> eval_date)
        \<and> (\<exists>l\<in>set fips_to_evaluate. \<forall>r\<in>set df_truth_raw.
              proj_date - 1 \<le> t_date r \<and> t_date r \<le> eval_date \<longrightarrow> t_location r \<noteq> Some l)
      \<longrightarrow> truth_loader df_truth_raw proj_date eval_date fips_to_evaluate
            = Inl (AssertionError ''Missing FIPS in truth'')"
  proof
    assume a: "(\<exists>r\<in>set df_truth_raw. proj_date - 1 \<le> t_date r \<and> t_date r \<le> eval_date)
        \<and> (\<exists>l\<in>set fips_to_evaluate. \<forall>r\<in>set df_truth_raw.
              proj_date - 1 \<le> t_date r \<and> t_date r \<le> eval_date \<longrightarrow> t_location r \<noteq> Some l)"
    then have ne: "W \<noteq> []" unfolding W_def by (auto simp: filter_empty_conv)
    from a obtain l where l: "l \<in> set fips_to_evaluate"
      "\<forall>r\<in>set df_truth_raw. proj_date - 1 \<le> t_date r \<and> t_date r \<le> eval_date \<longrightarrow> t_location r \<noteq> Some l"
      by blast
    have "l \<notin> set (group_keys t_location W)"
      using l(2) unfolding set_group_keys W_def by auto
    from covered_length[OF distinct_group_keys l(1) this]
    have "length F < length fips_to_evaluate" by (simp add: lenF)
    with ne show "truth_loader df_truth_raw proj_date eval_date fips_to_evaluate
            = Inl (AssertionError ''Missing FIPS in truth'')"
      by (simp add: tl)
  qed
  have 3: "\<forall>df_truth_filt us_truth.
        truth_loader df_truth_raw proj_date eval_date fips_to_evaluate
          = Inr (df_truth_filt, us_truth)
        \<longrightarrow> (\<forall>l\<in>set fips_to_evaluate.
               map_of df_truth_filt l
                 = Some (\<Sum>r\<leftarrow>filter (\<lambda>r. t_location r = Some l
                                          \<and> proj_date - 1 \<le> t_date r \<and> t_date r \<le> eval_date)
                                   df_truth_raw.
                           case daily_cases r of None \<Rightarrow> 0 | Some v \<Rightarrow> v))
            \<and> fst ` set df_truth_filt = set fips_to_evaluate
            \<and> map_of df_truth_filt ''US'' = Some us_truth"
  proof (intro allI impI)
    fix df_truth_filt us_truth
    assume r: "truth_loader df_truth_raw proj_date eval_date fips_to_evaluate
          = Inr (df_truth_filt, us_truth)"
    then have len: "length F = length fips_to_evaluate" and eqF: "df_truth_filt = F"
      and us: "map_of F ''US'' = Some us_truth"
      by (auto simp: tl split: if_splits option.splits)
    have cov: "l \<in> set (group_keys t_location W)" if "l \<in> set fips_to_evaluate" for l
    proof (rule ccontr)
      assume "l \<notin> set (group_keys t_location W)"
      from covered_length[OF distinct_group_keys that this] len lenF show False by simp
    qed
    have sums: "\<forall>l\<in>set fips_to_evaluate.
               map_of F l
                 = Some (\<Sum>r\<leftarrow>filter (\<lambda>r. t_location r = Some l
                                          \<and> proj_date - 1 \<le> t_date r \<and> t_date r \<le> eval_date)
                                   df_truth_raw.
                           case daily_cases r of None \<Rightarrow> 0 | Some v \<Rightarrow> v)"
    proof
      fix l assume l: "l \<in> set fips_to_evaluate"
      have f: "filter (\<lambda>r. t_location r = Some l) W
          = filter (\<lambda>r. t_location r = Some l \<and> proj_date - 1 \<le> t_date r \<and> t_date r \<le> eval_date)
              df_truth_raw"
        unfolding W_def by (simp add: conj_commute)
      show "map_of F l
                 = Some (\<Sum>r\<leftarrow>filter (\<lambda>r. t_location r = Some l
                                          \<and> proj_date - 1 \<le> t_date r \<and> t_date r \<le> eval_date)
                                   df_truth_raw.
                           case daily_cases r of None \<Rightarrow> 0 | Some v \<Rightarrow> v)"
        using cov[OF l] l by (simp add: mapF nansum_window f)
    qed
    have keys: "fst ` set F = set fips_to_evaluate"
      using cov by (auto simp: keysF)
    show "(\<forall>l\<in>set fips_to_evaluate.
               map_of df_truth_filt l
                 = Some (\<Sum>r\<leftarrow>filter (\<lambda>r. t_location r = Some l
                                          \<and> proj_date - 1 \<le> t_date r \<and> t_date r \<le> eval_date)
                                   df_truth_raw.
                           case daily_cases r of None \<Rightarrow> 0 | Some v \<Rightarrow> v))
            \<and> fst ` set df_truth_filt = set fips_to_evaluate
            \<and> map_of df_truth_filt ''US'' = Some us_truth"
      using sums keys us eqF by simp
  qed
  from 1 2 3 show ?thesis by blast
qed

subsection \<open>Forecast Normalizer\<close>

lemma load_model_Loaded:
  assumes "load_model df_model_raw eval_date use_point fips_to_evaluate fips_to_us_state
             df_truth_filt = Inr (Loaded res)"
    and "df_model = filter (\<lambda>r. target_end_date r \<le> eval_date) df_model_raw"
  shows "all_projections res
           = groupby_sum location forecast_value
               (select_estimate use_point fips_to_evaluate (horizon_filter df_model))"
    and "diffs_dict res = series_sub (all_projections res) df_truth_filt"
    and "us_projection res = map_of (all_projections res) ''US''"
    and "inc_case df_model \<noteq> []"
  using assms unfolding load_model_def Let_def
  by (auto split: if_splits)

lemma fst_set_groupby_sum:
  "fst ` set (groupby_sum key col rows) = {k. \<exists>r\<in>set rows. key r = Some k}"
  unfolding groupby_sum_def by (auto simp: set_group_keys image_iff)






lemma select_estimate_subset:
  "set (select_estimate use_point fips df) \<subseteq> set df"
  by (auto simp: select_estimate_def Let_def)







subsection \<open>The Truth Loader and the Forecast Normalizer on the examples\<close>

text \<open>Witness of C6: projection date 2020-06-15 (ordinal 737591), evaluation date
  2020-06-20: the window runs from 2020-06-14 to 2020-06-20.\<close>

theorem truth_loader_window_sum_witness:
  "truth_loader truth_example 737591 737596 [''US'', ''01'']
     = Inr ([(''01'', 30), (''US'', 300)], 300)
   \<and> truth_loader truth_example 737591 737596 [''US'', ''01'', ''02'']
     = Inl (AssertionError ''Missing FIPS in truth'')
   \<and> truth_loader truth_example 737599 737603 [''US'', ''01'']
     = Inl (AssertionError ''No truth data available for eval date'')"
proof -
  have a: "truth_loader truth_example 737591 737596 [''US'', ''01'']
     = Inr ([(''01'', 30), (''US'', 300)], 300)" by code_simp
  have b: "truth_loader truth_example 737591 737596 [''US'', ''01'', ''02'']
     = Inl (AssertionError ''Missing FIPS in truth'')" by code_simp
  have c: "truth_loader truth_example 737599 737603 [''US'', ''01'']
     = Inl (AssertionError ''No truth data available for eval date'')" by code_simp
  show ?thesis
    using truth_loader_window_sum[of truth_example 737591 737596 "[''US'', ''01'']"]
      truth_loader_window_sum[of truth_example 737591 737596 "[''US'', ''01'', ''02'']"]
      truth_loader_window_sum[of truth_example 737599 737603 "[''US'', ''01'']"]
      a b c
    by simp
qed




subsection \<open>Model Merger\<close>

lemma map_filter_map: "List.map_filter id (map f xs) = List.map_filter f xs"
  by (induction xs) (auto split: option.splits)

lemma str_contains_prefix: "str_contains p (p @ t)"
proof (cases "p @ t")
  case Nil
  then show ?thesis by simp
next
  case (Cons c s)
  have "take (length p) (p @ t) = p" by simp
  then have "take (length p) (c # s) = p" unfolding Cons .
  then have "str_contains p (c # s)" by (simp only: str_contains.simps simp_thms)
  then show ?thesis unfolding Cons .
qed

lemma str_contains_append: "str_contains p (s @ p @ t)"
  by (induction s) (simp_all add: str_contains_prefix)

lemma str_contains_combined: "str_contains p (p @ ''-combined'')"
  using str_contains_append[of p "[]" "''-combined''"] by simp

lemma combined_not_kept:
  "p @ ''-combined'' \<notin> set (filter (\<lambda>m. \<not> str_contains p m) xs)"
  using str_contains_combined by auto

text \<open>
  Claim C8. With merging enabled the Model Merger treats the per-location error table and
  the national table separately, each with the one configured prefix \<^verbatim>\<open>Imperial\<close>. For
  every configured prefix \<open>p\<close> and every table: when no model name contains \<open>p\<close> the
  table is unchanged; otherwise the rows whose name contains \<open>p\<close> are removed, the other
  rows keep their order and their cells, one row named \<open>p\<close>\<^verbatim>\<open>-combined\<close> is appended,
  the columns are unchanged, and the cell of the new row in a column is the unweighted
  mean of the values the removed rows have in that column (missing values are skipped, and
  the cell is missing when all are).
\<close>

theorem model_merger_combined:
  "model_merger True df_errors df_errors_us
     = (merge_prefix ''Imperial'' df_errors, merge_prefix ''Imperial'' df_errors_us)
   \<and> (\<forall>p\<in>set merge_models_prefixes. \<forall>df.
        (filter (str_contains p) (index df) = [] \<longrightarrow> merge_prefix p df = df)
        \<and> (filter (str_contains p) (index df) \<noteq> [] \<longrightarrow>
             index (merge_prefix p df)
               = filter (\<lambda>m. \<not> str_contains p m) (index df) @ [p @ ''-combined'']
             \<and> columns (merge_prefix p df) = columns df
             \<and> (\<forall>m c. \<not> str_contains p m \<longrightarrow> cell (merge_prefix p df) m c = cell df m c)
             \<and> (\<forall>c. cell (merge_prefix p df) (p @ ''-combined'') c
                    = (let vs = List.map_filter (\<lambda>m. cell df m c)
                                  (filter (str_contains p) (index df))
                       in if vs = [] then None else Some (sum_list vs / real (length vs))))))"
proof -
  have 1: "model_merger True df_errors df_errors_us
     = (merge_prefix ''Imperial'' df_errors, merge_prefix ''Imperial'' df_errors_us)"
    by (simp add: model_merger_def merge_models_prefixes_def)
  have 2: "filter (str_contains p) (index df) = [] \<longrightarrow> merge_prefix p df = df" for p df
    by (simp add: merge_prefix_def)
  have 3: "filter (str_contains p) (index df) \<noteq> [] \<longrightarrow>
             index (merge_prefix p df)
               = filter (\<lambda>m. \<not> str_contains p m) (index df) @ [p @ ''-combined'']
             \<and> columns (merge_prefix p df) = columns df
             \<and> (\<forall>m c. \<not> str_contains p m \<longrightarrow> cell (merge_prefix p df) m c = cell df m c)
             \<and> (\<forall>c. cell (merge_prefix p df) (p @ ''-combined'') c
                    = (let vs = List.map_filter (\<lambda>m. cell df m c)
                                  (filter (str_contains p) (index df))
                       in if vs = [] then None else Some (sum_list vs / real (length vs))))"
    for p df
  proof
    assume ne: "filter (str_contains p) (index df) \<noteq> []"
    have nk: "p @ ''-combined'' \<notin> set (filter (\<lambda>m. \<not> str_contains p m) (index df))"
      by (rule combined_not_kept)
    have a: "index (merge_prefix p df)
               = filter (\<lambda>m. \<not> str_contains p m) (index df) @ [p @ ''-combined'']"
      using ne nk by (simp add: merge_prefix_def Let_def)
    have b: "columns (merge_prefix p df) = columns df"
      using ne by (simp add: merge_prefix_def Let_def)
    have c: "\<forall>m c. \<not> str_contains p m \<longrightarrow> cell (merge_prefix p df) m c = cell df m c"
      using ne str_contains_combined[of p] by (auto simp: merge_prefix_def Let_def)
    have d: "\<forall>c. cell (merge_prefix p df) (p @ ''-combined'') c
                    = (let vs = List.map_filter (\<lambda>m. cell df m c)
                                  (filter (str_contains p) (index df))
                       in if vs = [] then None else Some (sum_list vs / real (length vs)))"
      using ne by (simp add: merge_prefix_def Let_def mean_skipna_def map_filter_map)
    from a b c d show "index (merge_prefix p df)
               = filter (\<lambda>m. \<not> str_contains p m) (index df) @ [p @ ''-combined'']
             \<and> columns (merge_prefix p df) = columns df
             \<and> (\<forall>m c. \<not> str_contains p m \<longrightarrow> cell (merge_prefix p df) m c = cell df m c)
             \<and> (\<forall>c. cell (merge_prefix p df) (p @ ''-combined'') c
                    = (let vs = List.map_filter (\<lambda>m. cell df m c)
                                  (filter (str_contains p) (index df))
                       in if vs = [] then None else Some (sum_list vs / real (length vs))))"
      by simp
  qed
  from 1 2 3 show ?thesis by blast
qed

text \<open>Witness of C8: two \<^verbatim>\<open>Imperial\<close> rows among four, and a table without any.\<close>

theorem model_merger_combined_witness:
  "''Imperial'' \<in> set merge_models_prefixes
   \<and> filter (str_contains ''Imperial'') (index merger_example)
       = [''Imperial-ensemble1'', ''Imperial-ensemble2'']
   \<and> index (merge_prefix ''Imperial'' merger_example)
       = [''COVIDhub-baseline'', ''YYG-ParamSearch'', ''Imperial-combined'']
   \<and> map (cell (merge_prefix ''Imperial'' merger_example) ''Imperial-combined'')
        [''Alabama'', ''Alaska'', ''US''] = [Some 15, None, Some 40]
   \<and> map (cell (merge_prefix ''Imperial'' merger_example_us) ''Imperial-combined'')
        [''predicted_cases'', ''actual_cases''] = [Some 140, Some 100]
   \<and> filter (str_contains ''Imperial'')
        (index (frame_of [''US''] [(''COVIDhub-baseline'', [Some 3])])) = []
   \<and> index (merge_prefix ''Imperial'' (frame_of [''US''] [(''COVIDhub-baseline'', [Some 3])]))
       = [''COVIDhub-baseline'']"
proof -
  have p: "''Imperial'' \<in> set merge_models_prefixes" by (simp add: merge_models_prefixes_def)
  have m: "filter (str_contains ''Imperial'') (index merger_example)
       = [''Imperial-ensemble1'', ''Imperial-ensemble2'']" by code_simp
  have i: "index (merge_prefix ''Imperial'' merger_example)
       = [''COVIDhub-baseline'', ''YYG-ParamSearch'', ''Imperial-combined'']" by code_simp
  have c: "map (cell (merge_prefix ''Imperial'' merger_example) ''Imperial-combined'')
        [''Alabama'', ''Alaska'', ''US''] = [Some 15, None, Some 40]" by code_simp
  have u: "map (cell (merge_prefix ''Imperial'' merger_example_us) ''Imperial-combined'')
        [''predicted_cases'', ''actual_cases''] = [Some 140, Some 100]" by code_simp
  have n: "filter (str_contains ''Imperial'')
        (index (frame_of [''US''] [(''COVIDhub-baseline'', [Some 3])])) = []" by code_simp
  from model_merger_combined[of merger_example merger_example_us] p n
  have "merge_prefix ''Imperial'' (frame_of [''US''] [(''COVIDhub-baseline'', [Some 3])])
      = frame_of [''US''] [(''COVIDhub-baseline'', [Some 3])]" by blast
  then have "index (merge_prefix ''Imperial'' (frame_of [''US''] [(''COVIDhub-baseline'', [Some 3])]))
       = [''COVIDhub-baseline'']" by (simp add: frame_of_def)
  with p m i c u n show ?thesis by simp
qed

subsection \<open>Scorer: the consistency check\<close>

text \<open>
  Claim C7. The national signed error of a model is its predicted minus the actual US
  cases, missing when either is. If the consistency check passes, every model of the
  national table is a model of the per-location table and either both errors are defined
  and the national error equals the \<^verbatim>\<open>US\<close> entry of the model, or both are missing.
  If some model of both tables shows any other combination, the check raises and the run
  aborts.
\<close>

theorem national_error_consistency:
  "(consistency_check (add_error_column df_errors_us) df_errors = Inr ()
      \<longrightarrow> (\<forall>m\<in>set (index df_errors_us). m \<in> set (index df_errors)
             \<and> ((\<exists>p a. cell df_errors_us m ''predicted_cases'' = Some p
                       \<and> cell df_errors_us m ''actual_cases'' = Some a
                       \<and> cell df_errors m ''US'' = Some (p - a))
                 \<or> ((cell df_errors_us m ''predicted_cases'' = None
                        \<or> cell df_errors_us m ''actual_cases'' = None)
                     \<and> cell df_errors m ''US'' = None))))
   \<and> (\<forall>m. m \<in> set (index df_errors_us) \<and> m \<in> set (index df_errors)
            \<and> \<not> ((\<exists>p a. cell df_errors_us m ''predicted_cases'' = Some p
                       \<and> cell df_errors_us m ''actual_cases'' = Some a
                       \<and> cell df_errors m ''US'' = Some (p - a))
                 \<or> ((cell df_errors_us m ''predicted_cases'' = None
                        \<or> cell df_errors_us m ''actual_cases'' = None)
                     \<and> cell df_errors m ''US'' = None))
        \<longrightarrow> (\<exists>e. consistency_check (add_error_column df_errors_us) df_errors = Inl e))"
proof -
  let ?us = "add_error_column df_errors_us"
  define good where "good = (\<lambda>m. (\<exists>p a. cell df_errors_us m ''predicted_cases'' = Some p
                       \<and> cell df_errors_us m ''actual_cases'' = Some a
                       \<and> cell df_errors m ''US'' = Some (p - a))
                 \<or> ((cell df_errors_us m ''predicted_cases'' = None
                        \<or> cell df_errors_us m ''actual_cases'' = None)
                     \<and> cell df_errors m ''US'' = None))"
  define test where "test = (\<lambda>m. eq_nan (cell ?us m ''error'') (cell df_errors m ''US'')
                 \<or> (isnan (cell ?us m ''error'') \<and> isnan (cell df_errors m ''US'')))"
  have err: "cell ?us m ''error''
      = sub_nan (cell df_errors_us m ''predicted_cases'') (cell df_errors_us m ''actual_cases'')"
    for m by (simp add: add_error_column_def)
  have tg: "test m \<longleftrightarrow> good m" for m
    unfolding test_def good_def err
    by (cases "cell df_errors_us m ''predicted_cases''";
        cases "cell df_errors_us m ''actual_cases''";
        cases "cell df_errors m ''US''")
       (auto simp add: sub_nan_def eq_nan_def isnan_def)
  have idx: "index ?us = index df_errors_us" by (simp add: add_error_column_def)
  have la: "list_all (\<lambda>m. eq_nan (cell ?us m ''error'') (cell df_errors m ''US'')
                 \<or> (isnan (cell ?us m ''error'') \<and> isnan (cell df_errors m ''US'')))
              (index df_errors_us)
            \<longleftrightarrow> (\<forall>m\<in>set (index df_errors_us). good m)"
    unfolding list_all_iff tg[symmetric] test_def ..
  have cc: "consistency_check ?us df_errors =
     (if ''US'' \<notin> set (columns df_errors) then Inl (KeyError ''US'')
      else if index df_errors_us \<noteq> index df_errors
      then Inl (ValueError ''Can only compare identically-labeled Series objects'')
      else if (\<forall>m\<in>set (index df_errors_us). good m) then Inr ()
      else Inl (AssertionError ''''))"
    unfolding consistency_check_def idx la ..
  have 1: "consistency_check ?us df_errors = Inr ()
      \<longrightarrow> (\<forall>m\<in>set (index df_errors_us). m \<in> set (index df_errors) \<and> good m)"
    unfolding cc by (simp split: if_splits)
  have 2: "\<forall>m. m \<in> set (index df_errors_us) \<and> m \<in> set (index df_errors) \<and> \<not> good m
        \<longrightarrow> (\<exists>e. consistency_check ?us df_errors = Inl e)"
    unfolding cc by auto
  from 1 2 show ?thesis unfolding good_def by blast
qed

text \<open>Witness of C7: the merged example tables pass the check (with a model whose two
  errors are missing); tables with different indexes raise.\<close>

theorem national_error_consistency_witness:
  "consistency_check (add_error_column (merge_prefix ''Imperial'' merger_example_us))
       (merge_prefix ''Imperial'' merger_example) = Inr ()
   \<and> index (merge_prefix ''Imperial'' merger_example_us)
       = [''COVIDhub-baseline'', ''YYG-ParamSearch'', ''Imperial-combined'']
   \<and> cell (merge_prefix ''Imperial'' merger_example_us) ''YYG-ParamSearch'' ''predicted_cases''
       = None
   \<and> cell (merge_prefix ''Imperial'' merger_example) ''YYG-ParamSearch'' ''US'' = None
   \<and> cell (merge_prefix ''Imperial'' merger_example) ''Imperial-combined'' ''US'' = Some (140 - 100)
   \<and> cell merger_example_us ''COVIDhub-baseline'' ''predicted_cases'' = Some 103
   \<and> cell merger_example_us ''COVIDhub-baseline'' ''actual_cases'' = Some 100
   \<and> cell (frame_of [''US''] [(''COVIDhub-baseline'', [Some 4])]) ''COVIDhub-baseline'' ''US''
       = Some 4
   \<and> consistency_check (add_error_column merger_example_us)
       (frame_of [''US''] [(''COVIDhub-baseline'', [Some 4])])
       = Inl (ValueError ''Can only compare identically-labeled Series objects'')"
proof -
  have a: "consistency_check (add_error_column (merge_prefix ''Imperial'' merger_example_us))
       (merge_prefix ''Imperial'' merger_example) = Inr ()" by code_simp
  have b: "index (merge_prefix ''Imperial'' merger_example_us)
       = [''COVIDhub-baseline'', ''YYG-ParamSearch'', ''Imperial-combined'']" by code_simp
  have c: "cell (merge_prefix ''Imperial'' merger_example_us) ''YYG-ParamSearch'' ''predicted_cases''
       = None"
    "cell (merge_prefix ''Imperial'' merger_example) ''YYG-ParamSearch'' ''US'' = None"
    "cell (merge_prefix ''Imperial'' merger_example) ''Imperial-combined'' ''US'' = Some (140 - 100)"
    "cell merger_example_us ''COVIDhub-baseline'' ''predicted_cases'' = Some 103"
    "cell merger_example_us ''COVIDhub-baseline'' ''actual_cases'' = Some 100"
    "cell (frame_of [''US''] [(''COVIDhub-baseline'', [Some 4])]) ''COVIDhub-baseline'' ''US''
       = Some 4"
    by code_simp+
  have d: "consistency_check (add_error_column merger_example_us)
       (frame_of [''US''] [(''COVIDhub-baseline'', [Some 4])])
       = Inl (ValueError ''Can only compare identically-labeled Series objects'')" by code_simp
  show ?thesis
    using national_error_consistency[of "merge_prefix ''Imperial'' merger_example_us"
        "merge_prefix ''Imperial'' merger_example"]
      national_error_consistency[of merger_example_us
        "frame_of [''US''] [(''COVIDhub-baseline'', [Some 4])]"]
      a b c d by simp
qed

subsection \<open>Scorer: imputation of missing values\<close>

lemma mean_skipna_None_iff: "mean_skipna vs = None \<longleftrightarrow> (\<forall>v\<in>set vs. v = None)"
proof -
  have "List.map_filter id vs = [] \<longleftrightarrow> (\<forall>v\<in>set vs. v = None)"
    by (induction vs) (auto split: option.splits)
  then show ?thesis by (simp add: mean_skipna_def Let_def)
qed

lemma isna_sum_zero_iff:
  "isna_sum df = 0 \<longleftrightarrow> (\<forall>m\<in>set (index df). \<forall>c\<in>set (columns df). cell df m c \<noteq> None)"
  by (auto simp: isna_sum_def filter_empty_conv)

lemma fillna_simps [simp]:
  "index (fillna df f) = index df" "columns (fillna df f) = columns df"
  "cell (fillna df f) m c = (case cell df m c of None \<Rightarrow> f c | Some v \<Rightarrow> Some v)"
  by (simp_all add: fillna_def)

lemma mean_axis0_abs:
  "mean_axis0 (abs_frame df) c
     = (let vs = List.map_filter (\<lambda>m. map_option abs (cell df m c)) (index df)
        in if vs = [] then None else Some (sum_list vs / real (length vs)))"
  by (simp add: mean_axis0_def abs_frame_def mean_skipna_def map_filter_map)

lemma mean_axis0_abs_None_iff:
  "mean_axis0 (abs_frame df) c = None \<longleftrightarrow> (\<forall>m\<in>set (index df). cell df m c = None)"
  by (auto simp: mean_axis0_def abs_frame_def mean_skipna_None_iff)

lemma fillna_idem:
  "fillna (fillna df (mean_axis0 (abs_frame df)))
     (mean_axis0 (abs_frame (fillna df (mean_axis0 (abs_frame df)))))
   = fillna df (mean_axis0 (abs_frame df))"
proof -
  let ?d = "fillna df (mean_axis0 (abs_frame df))"
  have "cell (fillna ?d (mean_axis0 (abs_frame ?d))) m c = cell ?d m c" for m c
  proof (cases "cell ?d m c")
    case (Some v)
    then show ?thesis by (simp only: fillna_simps(3)[of ?d] option.case)
  next
    case None
    then have "mean_axis0 (abs_frame df) c = None"
      by (auto split: option.splits)
    then have "\<forall>m'\<in>set (index df). cell df m' c = None"
      by (simp only: mean_axis0_abs_None_iff)
    then have "\<forall>m'\<in>set (index ?d). cell ?d m' c = None"
      using \<open>mean_axis0 (abs_frame df) c = None\<close> by simp
    then have "mean_axis0 (abs_frame ?d) c = None"
      by (simp only: mean_axis0_abs_None_iff)
    with None show ?thesis by (simp only: fillna_simps(3)[of ?d] option.case)
  qed
  then have "cell (fillna ?d (mean_axis0 (abs_frame ?d))) = cell ?d" by (intro ext)
  then show ?thesis
    unfolding fillna_def[of ?d] by simp
qed

lemma impute_missing_Inr:
  assumes "impute_missing df = Inr d"
  shows "d = fillna df (mean_axis0 (abs_frame df))" and "isna_sum d = 0"
    and "impute_missing d = Inr d"
proof -
  from assms show d: "d = fillna df (mean_axis0 (abs_frame df))" and z: "isna_sum d = 0"
    by (auto simp: impute_missing_def Let_def split: if_splits)
  have "fillna d (mean_axis0 (abs_frame d)) = d" unfolding d by (rule fillna_idem)
  with z show "impute_missing d = Inr d" by (simp add: impute_missing_def Let_def)
qed

lemma scorer_errors_states_Inr:
  assumes "scorer_errors_states evaluate_counties df_errors = Inr d"
  shows "impute_missing (filter_models (if evaluate_counties then 2000 else 40)
           (df_errors\<lparr>columns := filter (\<lambda>c. c \<noteq> ''US'') (columns df_errors)\<rparr>)) = Inr d"
  using assms
  by (auto simp: scorer_errors_states_def drop_columns_def min_locations_with_projections_def
      split: if_splits)

text \<open>
  Claim C1, as the code has it. When the Scorer returns its per-location table: its rows
  are the models of the error table with more than the minimum number (40 for states,
  2000 for counties) of non-missing locations, its columns are the locations other than
  \<^verbatim>\<open>US\<close>; a cell that has a value keeps it, and a missing cell of a location is
  replaced by the mean absolute error of that location, taken over the filtered models
  that have a value there; no cell of the table is missing (the run aborts otherwise);
  and the imputation applied once more returns the same table.
\<close>

theorem imputation_by_location_mean:
  assumes "scorer_errors_states evaluate_counties df_errors = Inr df_errors_states"
  shows "index df_errors_states
           = filter (\<lambda>m. (if evaluate_counties then 2000 else 40)
                          < length (filter (\<lambda>c. cell df_errors m c \<noteq> None)
                                      (filter (\<lambda>c. c \<noteq> ''US'') (columns df_errors))))
               (index df_errors)
       \<and> columns df_errors_states = filter (\<lambda>c. c \<noteq> ''US'') (columns df_errors)
       \<and> (\<forall>m c. cell df_errors_states m c
              = (case cell df_errors m c of
                   Some v \<Rightarrow> Some v
                 | None \<Rightarrow>
                     (let vs = List.map_filter (\<lambda>m'. map_option abs (cell df_errors m' c))
                                 (index df_errors_states)
                      in if vs = [] then None else Some (sum_list vs / real (length vs)))))
       \<and> (\<forall>m\<in>set (index df_errors_states). \<forall>c\<in>set (columns df_errors_states).
              cell df_errors_states m c \<noteq> None)
       \<and> impute_missing df_errors_states = Inr df_errors_states"
proof -
  define F where "F = filter_models (if evaluate_counties then 2000 else 40)
           (df_errors\<lparr>columns := filter (\<lambda>c. c \<noteq> ''US'') (columns df_errors)\<rparr>)"
  have imp: "impute_missing F = Inr df_errors_states"
    unfolding F_def by (rule scorer_errors_states_Inr[OF assms])
  note r = impute_missing_Inr[OF imp]
  have iF: "index F = filter (\<lambda>m. (if evaluate_counties then 2000 else 40)
                          < length (filter (\<lambda>c. cell df_errors m c \<noteq> None)
                                      (filter (\<lambda>c. c \<noteq> ''US'') (columns df_errors))))
               (index df_errors)"
    by (simp add: F_def filter_models_def notna_count_def)
  have cF: "columns F = filter (\<lambda>c. c \<noteq> ''US'') (columns df_errors)"
    by (simp add: F_def filter_models_def)
  have eF: "cell F = cell df_errors" by (simp add: F_def filter_models_def)
  have 1: "index df_errors_states = filter (\<lambda>m. (if evaluate_counties then 2000 else 40)
                          < length (filter (\<lambda>c. cell df_errors m c \<noteq> None)
                                      (filter (\<lambda>c. c \<noteq> ''US'') (columns df_errors))))
               (index df_errors)"
    unfolding r(1) using iF by simp
  have 2: "columns df_errors_states = filter (\<lambda>c. c \<noteq> ''US'') (columns df_errors)"
    unfolding r(1) using cF by simp
  have i': "index df_errors_states = index F" unfolding r(1) by simp
  have 3: "\<forall>m c. cell df_errors_states m c
              = (case cell df_errors m c of
                   Some v \<Rightarrow> Some v
                 | None \<Rightarrow>
                     (let vs = List.map_filter (\<lambda>m'. map_option abs (cell df_errors m' c))
                                 (index df_errors_states)
                      in if vs = [] then None else Some (sum_list vs / real (length vs))))"
    unfolding i' unfolding r(1) fillna_simps mean_axis0_abs eF
    by (auto split: option.splits)
  have 4: "\<forall>m\<in>set (index df_errors_states). \<forall>c\<in>set (columns df_errors_states).
              cell df_errors_states m c \<noteq> None"
    using r(2) by (simp only: isna_sum_zero_iff)
  from 1 2 3 4 r(3) show ?thesis by blast
qed

lemma scorer_example_run:
  "scorer_errors_states False scorer_example
     = Inr (fillna scorer_example_states (mean_axis0 (abs_frame scorer_example_states)))"
proof -
  have k: "list_all (\<lambda>l. l \<in> set (columns scorer_example)) [''US'']" by code_simp
  have c: "filter (\<lambda>c. c \<noteq> ''US'') (columns scorer_example) = state_names" by code_simp
  have z: "isna_sum (fillna scorer_example_states
             (mean_axis0 (abs_frame scorer_example_states))) = 0" by code_simp
  show ?thesis
    using k z
    by (simp add: scorer_errors_states_def drop_columns_def impute_missing_def Let_def
        min_locations_with_projections_def c scorer_example_states_def)
qed

text \<open>Witness of C1: in the example table the missing value of \<^verbatim>\<open>YYG-ParamSearch\<close> for
  Alabama becomes 2, the absolute error of the other model for Alabama.\<close>

theorem imputation_by_location_mean_witness:
  "scorer_errors_states False scorer_example
     = Inr (fillna scorer_example_states (mean_axis0 (abs_frame scorer_example_states)))
   \<and> index (fillna scorer_example_states (mean_axis0 (abs_frame scorer_example_states)))
       = [''COVIDhub-baseline'', ''YYG-ParamSearch'']
   \<and> columns (fillna scorer_example_states (mean_axis0 (abs_frame scorer_example_states)))
       = state_names
   \<and> cell scorer_example ''YYG-ParamSearch'' ''Alabama'' = None
   \<and> cell scorer_example ''COVIDhub-baseline'' ''Alabama'' = Some (- 2)
   \<and> cell (fillna scorer_example_states (mean_axis0 (abs_frame scorer_example_states)))
        ''YYG-ParamSearch'' ''Alabama'' = Some 2
   \<and> cell (fillna scorer_example_states (mean_axis0 (abs_frame scorer_example_states)))
        ''YYG-ParamSearch'' ''Alaska'' = Some 4
   \<and> impute_missing (fillna scorer_example_states (mean_axis0 (abs_frame scorer_example_states)))
       = Inr (fillna scorer_example_states (mean_axis0 (abs_frame scorer_example_states)))"
proof -
  have v: "index (fillna scorer_example_states (mean_axis0 (abs_frame scorer_example_states)))
       = [''COVIDhub-baseline'', ''YYG-ParamSearch'']"
    "columns (fillna scorer_example_states (mean_axis0 (abs_frame scorer_example_states)))
       = state_names"
    "cell scorer_example ''YYG-ParamSearch'' ''Alabama'' = None"
    "cell scorer_example ''COVIDhub-baseline'' ''Alabama'' = Some (- 2)"
    "cell (fillna scorer_example_states (mean_axis0 (abs_frame scorer_example_states)))
        ''YYG-ParamSearch'' ''Alabama'' = Some 2"
    "cell (fillna scorer_example_states (mean_axis0 (abs_frame scorer_example_states)))
        ''YYG-ParamSearch'' ''Alaska'' = Some 4"
    by code_simp+
  from imputation_by_location_mean[OF scorer_example_run]
  have "impute_missing (fillna scorer_example_states (mean_axis0 (abs_frame scorer_example_states)))
       = Inr (fillna scorer_example_states (mean_axis0 (abs_frame scorer_example_states)))"
    by blast
  with v scorer_example_run show ?thesis by simp
qed

text \<open>
  Counterexample to C1 as the specification words it (a missing value is replaced by the
  mean absolute error of the model itself): \<^verbatim>\<open>YYG-ParamSearch\<close> remains in the filtered
  table with 50 values, its value for Alabama is missing, its own mean absolute error is
  4, and the imputed value is 2.
\<close>

theorem imputation_model_mean_counterexample:
  "scorer_errors_states False scorer_example
     = Inr (fillna scorer_example_states (mean_axis0 (abs_frame scorer_example_states)))
   \<and> index scorer_example_states = [''COVIDhub-baseline'', ''YYG-ParamSearch'']
   \<and> notna_count scorer_example_states ''YYG-ParamSearch'' = 50
   \<and> cell scorer_example_states ''YYG-ParamSearch'' ''Alabama'' = None
   \<and> model_mean_abs_error scorer_example_states ''YYG-ParamSearch'' = Some 4
   \<and> cell (fillna scorer_example_states (mean_axis0 (abs_frame scorer_example_states)))
        ''YYG-ParamSearch'' ''Alabama'' = Some 2"
proof -
  have v: "index scorer_example_states = [''COVIDhub-baseline'', ''YYG-ParamSearch'']"
    "notna_count scorer_example_states ''YYG-ParamSearch'' = 50"
    "cell scorer_example_states ''YYG-ParamSearch'' ''Alabama'' = None"
    "model_mean_abs_error scorer_example_states ''YYG-ParamSearch'' = Some 4"
    "cell (fillna scorer_example_states (mean_axis0 (abs_frame scorer_example_states)))
        ''YYG-ParamSearch'' ''Alabama'' = Some 2"
    by code_simp+
  with scorer_example_run show ?thesis by simp
qed

subsection \<open>Scorer: beat the baseline\<close>

lemma beat_baseline_series_cases:
  "(beat_baseline_series em eb loc = Some True
      \<longleftrightarrow> (\<exists>x. em loc = Some x \<and> ((\<exists>y. eb loc = Some y \<and> \<bar>x\<bar> < \<bar>y\<bar>) \<or> \<bar>x\<bar> < 1 / 1000)))
   \<and> (beat_baseline_series em eb loc = Some False
      \<longleftrightarrow> (\<exists>x. em loc = Some x \<and> \<not> ((\<exists>y. eb loc = Some y \<and> \<bar>x\<bar> < \<bar>y\<bar>) \<or> \<bar>x\<bar> < 1 / 1000)))
   \<and> (beat_baseline_series em eb loc = None \<longleftrightarrow> em loc = None)"
  by (cases "em loc"; cases "eb loc")
     (auto simp: beat_baseline_series_def lt_nan_def Let_def)

lemma map_of_prefixed:
  "m \<in> set ms \<Longrightarrow> map_of (map (\<lambda>x. (p @ x, f x)) ms) (p @ m) = Some (f m)"
  by (induction ms) auto

text \<open>
  Claim C4. For every model that is not the baseline (a column of \<^verbatim>\<open>df_all\<close> with a
  dash in its name, as \<^verbatim>\<open>model_names\<close> has them) the column
  \<^verbatim>\<open>beat_baseline-{model_name}\<close> exists, and at every location it is True exactly when
  the error of the model is defined and its absolute value is strictly below the absolute
  error of the baseline (which must then be defined) or strictly below 1/1000; it is False
  exactly when the error of the model is defined and neither holds; and it is missing
  exactly when the error of the model is missing, whatever the baseline has. An absolute
  error of 0.0005 beats a baseline of 0.0004.
\<close>

theorem beat_baseline_rule:
  assumes "beat_baseline_columns df_all_columns df_errors_raw = Inr beat"
    and "model_name \<in> set df_all_columns" and "CHR ''-'' \<in> set model_name"
    and "model_name \<noteq> ''COVIDhub-baseline''"
  shows "\<exists>col. map_of beat (''beat_baseline-'' @ model_name) = Some col
       \<and> (\<forall>loc.
            (col loc = Some True
               \<longleftrightarrow> (\<exists>x. error_series df_errors_raw model_name loc = Some x
                       \<and> ((\<exists>y. error_series df_errors_raw ''COVIDhub-baseline'' loc = Some y
                               \<and> \<bar>x\<bar> < \<bar>y\<bar>)
                           \<or> \<bar>x\<bar> < 1 / 1000)))
          \<and> (col loc = Some False
               \<longleftrightarrow> (\<exists>x. error_series df_errors_raw model_name loc = Some x
                       \<and> \<not> ((\<exists>y. error_series df_errors_raw ''COVIDhub-baseline'' loc = Some y
                                 \<and> \<bar>x\<bar> < \<bar>y\<bar>)
                             \<or> \<bar>x\<bar> < 1 / 1000)))
          \<and> (col loc = None \<longleftrightarrow> error_series df_errors_raw model_name loc = None))
       \<and> beat_baseline_series (\<lambda>loc. Some (5 / 10000)) (\<lambda>loc. Some (4 / 10000)) l = Some True"
proof -
  let ?col = "beat_baseline_series (error_series df_errors_raw model_name)
                (error_series df_errors_raw ''COVIDhub-baseline'')"
  let ?ms = "filter (\<lambda>model_name. model_name \<noteq> ''COVIDhub-baseline'')
               (filter (\<lambda>c. CHR ''-'' \<in> set c) df_all_columns)"
  from assms(1) have b: "beat = map (\<lambda>model_name.
                       (''beat_baseline-'' @ model_name,
                        beat_baseline_series (error_series df_errors_raw model_name)
                          (error_series df_errors_raw ''COVIDhub-baseline''))) ?ms"
    by (auto simp: beat_baseline_columns_def Let_def split: if_splits)
  have m: "model_name \<in> set ?ms" using assms(2,3,4) by simp
  have 1: "map_of beat (''beat_baseline-'' @ model_name) = Some ?col"
    unfolding b by (rule map_of_prefixed[OF m])
  have 2: "beat_baseline_series (\<lambda>loc. Some (5 / 10000)) (\<lambda>loc. Some (4 / 10000)) l = Some True"
    by (simp add: beat_baseline_series_def lt_nan_def Let_def)
  show ?thesis
    apply (rule exI[of _ ?col])
    using 1 2 beat_baseline_series_cases[of "error_series df_errors_raw model_name"
        "error_series df_errors_raw ''COVIDhub-baseline''"]
    by blast
qed

text \<open>Witness of C4: the model beats the baseline for Alabama (0.0005 against 0.0004), does
  not for Alaska (7 against 7) nor for Arizona (9, the baseline missing), and has no
  value for the US, where its own error is missing.\<close>

theorem beat_baseline_rule_witness:
  "(case beat_baseline_columns [''actual_cases'', ''COVIDhub-baseline'', ''YYG-ParamSearch'']
           beat_example of
      Inr beat \<Rightarrow>
        map fst beat = [''beat_baseline-YYG-ParamSearch'']
        \<and> (case map_of beat ''beat_baseline-YYG-ParamSearch'' of
             Some col \<Rightarrow> map col [''Alabama'', ''Alaska'', ''Arizona'', ''US'']
                          = [Some True, Some False, Some False, None]
           | None \<Rightarrow> False)
    | Inl e \<Rightarrow> False)"
proof -
  have e: "beat_baseline_columns [''actual_cases'', ''COVIDhub-baseline'', ''YYG-ParamSearch'']
             beat_example
           = Inr [(''beat_baseline-YYG-ParamSearch'',
                   beat_baseline_series (error_series beat_example ''YYG-ParamSearch'')
                     (error_series beat_example ''COVIDhub-baseline''))]"
  proof -
    have ix: "index beat_example = [''COVIDhub-baseline'', ''YYG-ParamSearch'']" by code_simp
    show ?thesis by (simp add: beat_baseline_columns_def ix Let_def)
  qed
  have v: "map (beat_baseline_series (error_series beat_example ''YYG-ParamSearch'')
                     (error_series beat_example ''COVIDhub-baseline''))
             [''Alabama'', ''Alaska'', ''Arizona'', ''US'']
           = [Some True, Some False, Some False, None]" by code_simp
  show ?thesis
    using beat_baseline_rule[OF e, of "''YYG-ParamSearch''"] v
    by (simp add: e)
qed

subsection \<open>The evaluation universe and the location codes\<close>

lemma map_of_dict_set: "map_of (dict_set k v d) = (map_of d)(k \<mapsto> v)"
  by (induction d) (auto simp: fun_eq_iff)

lemma map_fst_dict_set:
  "map fst (dict_set k v d) = (if k \<in> set (map fst d) then map fst d else map fst d @ [k])"
  by (induction d) (auto simp: rev_image_eqI)

lemma keys_dict_set: "fst ` set (dict_set k v d) = insert k (fst ` set d)"
proof -
  have "set (map fst (dict_set k v d)) = insert k (set (map fst d))"
    unfolding map_fst_dict_set by auto
  then show ?thesis by simp
qed

lemma keys_fold_dict_set:
  "fst ` set (fold (\<lambda>(k, v) d. dict_set k v d) items d) = fst ` set items \<union> fst ` set d"
  by (induction items arbitrary: d) (auto simp: keys_dict_set split: prod.splits)

lemma map_of_fold_dict_set:
  "map_of (fold (\<lambda>(k, v) d. dict_set k v d) items d) k
     = (case map_of (rev items) k of Some v \<Rightarrow> Some v | None \<Rightarrow> map_of d k)"
proof (induction items arbitrary: d)
  case Nil
  show ?case by simp
next
  case (Cons x items)
  obtain a b where x: "x = (a, b)" by (cases x)
  show ?case
    unfolding x fold_simps prod.case Cons.IH
    by (auto simp: map_of_dict_set map_of_append split: option.splits)
qed

lemma keys_to_dict: "fst ` set (to_dict items) = fst ` set items"
  unfolding to_dict_def by (simp add: keys_fold_dict_set)

lemma map_of_to_dict: "map_of (to_dict items) k = map_of (rev items) k"
  unfolding to_dict_def by (simp add: map_of_fold_dict_set split: option.splits)

lemma map_of_to_dict_mem: "map_of (to_dict items) k = Some v \<Longrightarrow> (k, v) \<in> set items"
  unfolding map_of_to_dict by (drule map_of_SomeD) simp

lemma map_of_rev_last:
  assumes "k \<notin> fst ` set post"
  shows "map_of (rev (pre @ (k, v) # post)) k = Some v"
proof -
  have "map_of (rev post) k = None" using assms by (simp add: map_of_eq_None_iff)
  then show ?thesis by (simp add: map_add_def)
qed

lemma map_of_map_values:
  "map_of (map (\<lambda>(k, v). (k, f v)) d) k = map_option f (map_of d k)"
  by (induction d) auto

lemma those_map_Some:
  "those (map f xs) = Some ys \<Longrightarrow>
     (\<forall>y\<in>set ys. \<exists>x\<in>set xs. f x = Some y) \<and> (\<forall>x\<in>set xs. \<exists>y\<in>set ys. f x = Some y)"
proof (induction xs arbitrary: ys)
  case Nil
  then show ?case by simp
next
  case (Cons x xs)
  from Cons.prems obtain y zs where y: "f x = Some y" and zs: "those (map f xs) = Some zs"
    and ys: "ys = y # zs"
    by (auto split: option.splits)
  from Cons.IH[OF zs] y show ?case unfolding ys by auto
qed

lemma map_filter_append:
  "List.map_filter g (xs @ ys) = List.map_filter g xs @ List.map_filter g ys"
  by (simp add: List.map_filter_def)

lemma set_map_filter_abbr:
  "set (List.map_filter (\<lambda>r. map_option (\<lambda>a. (a, h r)) (abbr r)) rows)
     = {(a, h r) | a r. r \<in> set rows \<and> abbr r = Some a}"
  by (induction rows) (auto split: option.splits)

lemma map_filter_abbr_filter:
  "List.map_filter (\<lambda>r. map_option (\<lambda>a. (a, h r)) (abbr r)) (filter (\<lambda>r. abbr r \<noteq> None) rows)
     = List.map_filter (\<lambda>r. map_option (\<lambda>a. (a, h r)) (abbr r)) rows"
  by (induction rows) (auto split: option.splits)

lemma horizon_filter_subset: "set (horizon_filter df) \<subseteq> set df"
  by (auto simp: horizon_filter_def Let_def inc_case_def)

lemma load_locations_states_Inr:
  assumes "load_locations False df_loc = Inr (fips_to_us_state, fips_to_evaluate)"
  defines "P \<equiv> List.map_filter (\<lambda>r. map_option (\<lambda>a. (a, loc_code r)) (abbr r)) df_loc"
    and "N \<equiv> List.map_filter (\<lambda>r. map_option (\<lambda>a. (a, location_name r)) (abbr r)) df_loc"
  defines "F \<equiv> map (\<lambda>(k, v). (k, if length v = 1 then ''0'' @ v else v)) (to_dict P)"
  shows "\<exists>items. those (map (\<lambda>(k, v). map_option (\<lambda>n. (v, n)) (map_of (to_dict N) k)) F)
                   = Some items \<and> fips_to_us_state = to_dict items"
    and "those (map (\<lambda>x. if x = ''US'' then Some ''US'' else map_of F x)
                 (filter (\<lambda>s. s \<notin> set US_TERRITORIES) (map fst (to_dict N))))
           = Some fips_to_evaluate"
  using assms(1) unfolding load_locations_def Let_def P_def N_def F_def map_filter_abbr_filter
  by (auto split: if_splits option.splits prod.splits)

lemma truth_loader_keys:
  assumes "truth_loader df_truth_raw proj_date eval_date fips_to_evaluate
             = Inr (df_truth_filt, us_truth)"
  shows "fst ` set df_truth_filt
           \<subseteq> {l \<in> set fips_to_evaluate. \<exists>r\<in>set df_truth_raw. t_location r = Some l}"
proof -
  let ?W = "filter (\<lambda>r. t_date r \<ge> proj_date - 1 \<and> t_date r \<le> eval_date) df_truth_raw"
  from assms have "df_truth_filt
      = filter (\<lambda>(l, v). l \<in> set fips_to_evaluate) (groupby_sum t_location daily_cases ?W)"
    unfolding truth_loader_def Let_def by (auto split: if_splits option.splits)
  then have "fst ` set df_truth_filt
      \<subseteq> {l \<in> set fips_to_evaluate. l \<in> fst ` set (groupby_sum t_location daily_cases ?W)}"
    by force
  then show ?thesis unfolding fst_set_groupby_sum by auto
qed

text \<open>
  Claim C9, as the code has it. Location codes are strings everywhere and are compared as
  they are. In state mode, when the locations table is accepted: every code of
  \<^verbatim>\<open>fips_to_evaluate\<close> is \<^verbatim>\<open>US\<close> or the code of a table row with an abbreviation that
  is no territory, with a \<^verbatim>\<open>0\<close> put in front when the code has a single character and
  unchanged otherwise (so a code with a leading zero stays as it is); no code of
  \<^verbatim>\<open>fips_to_evaluate\<close> and no key of \<^verbatim>\<open>fips_to_us_state\<close> has a single character; and
  the code, so padded, of the last row of each abbreviation that is neither \<^verbatim>\<open>US\<close> nor
  a territory is in \<^verbatim>\<open>fips_to_evaluate\<close>. In county mode the codes of
  \<^verbatim>\<open>fips_to_evaluate\<close> are the codes of the table rows without abbreviation (and of
  \<^verbatim>\<open>US\<close>), except \<^verbatim>\<open>11001\<close>, with no padding. The totals of a loaded model have
  entries only for locations of the universe that are, character for character, the
  location of one of its forecast rows: the codes of forecast rows are not padded. In the
  same way the table of the Truth Loader has entries only for locations of the universe
  that are, character for character, the location of one of the truth rows.
\<close>

theorem location_codes_padded_in_state_table_only:
  "(\<forall>fips_to_us_state fips_to_evaluate.
      load_locations False df_loc = Inr (fips_to_us_state, fips_to_evaluate) \<longrightarrow>
        (\<forall>x\<in>set fips_to_evaluate. length x \<noteq> 1
           \<and> (x = ''US''
               \<or> (\<exists>r\<in>set df_loc. \<exists>a. abbr r = Some a \<and> a \<notin> set US_TERRITORIES
                      \<and> x = (if length (loc_code r) = 1 then ''0'' @ loc_code r
                             else loc_code r))))
        \<and> (\<forall>k\<in>fst ` set fips_to_us_state. length k \<noteq> 1)
        \<and> (\<forall>pre r post a. df_loc = pre @ r # post \<and> abbr r = Some a
               \<and> (\<forall>s\<in>set post. abbr s \<noteq> Some a) \<and> a \<notin> set US_TERRITORIES \<and> a \<noteq> ''US''
             \<longrightarrow> (if length (loc_code r) = 1 then ''0'' @ loc_code r else loc_code r)
                   \<in> set fips_to_evaluate))
   \<and> (\<forall>fips_to_us_state fips_to_evaluate.
        load_locations True df_loc = Inr (fips_to_us_state, fips_to_evaluate) \<longrightarrow>
          set fips_to_evaluate
            = {loc_code r | r. r \<in> set df_loc \<and> (abbr r = None \<or> loc_code r = ''US'')}
              - {''11001''})
   \<and> (\<forall>res. load_model df_model_raw eval_date use_point fips fips_map df_truth_filt
               = Inr (Loaded res)
        \<longrightarrow> fst ` set (all_projections res)
              \<subseteq> {l \<in> set fips. \<exists>r\<in>set df_model_raw. location r = Some l})
   \<and> (\<forall>df_truth_raw proj_date truth_eval_date truth_fips df_truth us_truth.
        truth_loader df_truth_raw proj_date truth_eval_date truth_fips = Inr (df_truth, us_truth)
        \<longrightarrow> fst ` set df_truth
              \<subseteq> {l \<in> set truth_fips. \<exists>r\<in>set df_truth_raw. t_location r = Some l})"
proof -
  let ?pad = "\<lambda>v. if length v = 1 then ''0'' @ v else (v::string)"
  have padlen: "length (?pad v) \<noteq> 1" for v by simp
  have states: "(\<forall>x\<in>set ev. length x \<noteq> 1
           \<and> (x = ''US''
               \<or> (\<exists>r\<in>set df_loc. \<exists>a. abbr r = Some a \<and> a \<notin> set US_TERRITORIES
                      \<and> x = ?pad (loc_code r))))
        \<and> (\<forall>k\<in>fst ` set d. length k \<noteq> 1)
        \<and> (\<forall>pre r post a. df_loc = pre @ r # post \<and> abbr r = Some a
               \<and> (\<forall>s\<in>set post. abbr s \<noteq> Some a) \<and> a \<notin> set US_TERRITORIES \<and> a \<noteq> ''US''
             \<longrightarrow> ?pad (loc_code r) \<in> set ev)"
    if L: "load_locations False df_loc = Inr (d, ev)" for d ev
  proof -
    define P where "P = List.map_filter (\<lambda>r. map_option (\<lambda>a. (a, loc_code r)) (abbr r)) df_loc"
    define N where "N = List.map_filter (\<lambda>r. map_option (\<lambda>a. (a, location_name r)) (abbr r)) df_loc"
    define F where "F = map (\<lambda>(k, v). (k, ?pad v)) (to_dict P)"
    define regs where "regs = filter (\<lambda>s. s \<notin> set US_TERRITORIES) (map fst (to_dict N))"
    from load_locations_states_Inr[OF L] obtain items where
      it: "those (map (\<lambda>(k, v). map_option (\<lambda>n. (v, n)) (map_of (to_dict N) k)) F) = Some items"
      and d: "d = to_dict items"
      and ev: "those (map (\<lambda>x. if x = ''US'' then Some ''US'' else map_of F x) regs) = Some ev"
      unfolding P_def N_def F_def regs_def by blast
    have mF: "map_of F a = map_option ?pad (map_of (to_dict P) a)" for a
      unfolding F_def by (rule map_of_map_values)
    have memP: "(a, v) \<in> set P \<longleftrightarrow> (\<exists>r\<in>set df_loc. abbr r = Some a \<and> loc_code r = v)" for a v
      unfolding P_def set_map_filter_abbr by auto
    have keysN: "fst ` set (to_dict N) = {a. \<exists>r\<in>set df_loc. abbr r = Some a}"
      unfolding keys_to_dict N_def set_map_filter_abbr by force
    have regs_set: "set regs = {a. (\<exists>r\<in>set df_loc. abbr r = Some a) \<and> a \<notin> set US_TERRITORIES}"
      unfolding regs_def using keysN by auto
    note tm = those_map_Some[OF ev]
    have 1: "\<forall>x\<in>set ev. length x \<noteq> 1
           \<and> (x = ''US''
               \<or> (\<exists>r\<in>set df_loc. \<exists>a. abbr r = Some a \<and> a \<notin> set US_TERRITORIES
                      \<and> x = ?pad (loc_code r)))"
    proof
      fix x assume "x \<in> set ev"
      with tm obtain a where a: "a \<in> set regs"
        and fx: "(if a = ''US'' then Some ''US'' else map_of F a) = Some x" by blast
      show "length x \<noteq> 1
           \<and> (x = ''US''
               \<or> (\<exists>r\<in>set df_loc. \<exists>a. abbr r = Some a \<and> a \<notin> set US_TERRITORIES
                      \<and> x = ?pad (loc_code r)))"
      proof (cases "a = ''US''")
        case True
        with fx have "x = ''US''" by simp
        then show ?thesis by simp
      next
        case False
        with fx have "map_of F a = Some x" by simp
        then obtain v where v: "map_of (to_dict P) a = Some v" and x: "x = ?pad v"
          unfolding mF by auto
        from map_of_to_dict_mem[OF v] have "(a, v) \<in> set P" .
        then obtain r where r: "r \<in> set df_loc" "abbr r = Some a" "loc_code r = v"
          unfolding memP by blast
        from a have nt: "a \<notin> set US_TERRITORIES" unfolding regs_set by simp
        have "length x \<noteq> 1" unfolding x by (rule padlen)
        moreover have "\<exists>r\<in>set df_loc. \<exists>a. abbr r = Some a \<and> a \<notin> set US_TERRITORIES
                      \<and> x = ?pad (loc_code r)"
          using r nt x by blast
        ultimately show ?thesis by blast
      qed
    qed
    have 2: "\<forall>k\<in>fst ` set d. length k \<noteq> 1"
    proof
      fix k assume "k \<in> fst ` set d"
      then have "k \<in> fst ` set items" unfolding d keys_to_dict .
      then obtain n where "(k, n) \<in> set items" by auto
      with those_map_Some[OF it] obtain kv where kv: "kv \<in> set F"
        and e: "(case kv of (k', v) \<Rightarrow> map_option (\<lambda>n. (v, n)) (map_of (to_dict N) k')) = Some (k, n)"
        by blast
      obtain k' v where kv': "kv = (k', v)" by (cases kv)
      from e have "v = k" unfolding kv' by auto
      moreover from kv have "\<exists>v0. v = ?pad v0" unfolding kv' F_def by auto
      ultimately obtain v0 where "k = ?pad v0" by blast
      then show "length k \<noteq> 1" using padlen[of v0] by simp
    qed
    have 3: "\<forall>pre r post a. df_loc = pre @ r # post \<and> abbr r = Some a
               \<and> (\<forall>s\<in>set post. abbr s \<noteq> Some a) \<and> a \<notin> set US_TERRITORIES \<and> a \<noteq> ''US''
             \<longrightarrow> ?pad (loc_code r) \<in> set ev"
    proof (intro allI impI)
      fix pre r post a
      assume h: "df_loc = pre @ r # post \<and> abbr r = Some a
               \<and> (\<forall>s\<in>set post. abbr s \<noteq> Some a) \<and> a \<notin> set US_TERRITORIES \<and> a \<noteq> ''US''"
      let ?g = "\<lambda>r. map_option (\<lambda>a. (a, loc_code r)) (abbr r)"
      have Pe: "P = List.map_filter ?g pre @ (a, loc_code r) # List.map_filter ?g post"
        unfolding P_def using h by (simp add: map_filter_append)
      have "a \<notin> fst ` set (List.map_filter ?g post)"
        unfolding set_map_filter_abbr using h by auto
      then have "map_of (to_dict P) a = Some (loc_code r)"
        unfolding map_of_to_dict Pe by (rule map_of_rev_last)
      then have mf: "map_of F a = Some (?pad (loc_code r))" unfolding mF by simp
      have "r \<in> set df_loc" using h by simp
      then have "a \<in> set regs" unfolding regs_set using h by blast
      with tm obtain y where "y \<in> set ev"
        and "(if a = ''US'' then Some ''US'' else map_of F a) = Some y" by blast
      with mf h show "?pad (loc_code r) \<in> set ev" by simp
    qed
    from 1 2 3 show ?thesis by blast
  qed
  have counties: "set ev
            = {loc_code r | r. r \<in> set df_loc \<and> (abbr r = None \<or> loc_code r = ''US'')}
              - {''11001''}"
    if L: "load_locations True df_loc = Inr (d, ev)" for d ev
  proof -
    let ?R = "filter (\<lambda>r. abbr r = None \<or> loc_code r = ''US'') df_loc"
    from L have "ev = filter (\<lambda>i. i \<noteq> ''11001'')
        (map fst (to_dict (map (\<lambda>r. (loc_code r, loc_code r)) ?R)))"
      by (auto simp: load_locations_def Let_def)
    then have "set ev = fst ` set (to_dict (map (\<lambda>r. (loc_code r, loc_code r)) ?R)) - {''11001''}"
      by auto
    also have "\<dots> = {loc_code r | r. r \<in> set df_loc \<and> (abbr r = None \<or> loc_code r = ''US'')}
              - {''11001''}"
      unfolding keys_to_dict by force
    finally show ?thesis .
  qed
  have forecast: "fst ` set (all_projections res)
              \<subseteq> {l \<in> set fips. \<exists>r\<in>set df_model_raw. location r = Some l}"
    if L: "load_model df_model_raw eval_date use_point fips fips_map df_truth_filt
               = Inr (Loaded res)" for res
  proof -
    let ?df = "filter (\<lambda>r. target_end_date r \<le> eval_date) df_model_raw"
    have sub: "set (select_estimate use_point fips (horizon_filter ?df)) \<subseteq> set df_model_raw"
      using select_estimate_subset[of use_point fips "horizon_filter ?df"]
        horizon_filter_subset[of ?df] by auto
    have isin: "\<forall>r\<in>set (select_estimate use_point fips (horizon_filter ?df)).
        isin (location r) fips"
      by (auto simp: select_estimate_def Let_def)
    show ?thesis
      unfolding load_model_Loaded(1)[OF L refl] fst_set_groupby_sum
      using sub isin by (auto simp: isin_def)
  qed
  have truth: "\<forall>df_truth_raw proj_date truth_eval_date truth_fips df_truth us_truth.
        truth_loader df_truth_raw proj_date truth_eval_date truth_fips = Inr (df_truth, us_truth)
        \<longrightarrow> fst ` set df_truth
              \<subseteq> {l \<in> set truth_fips. \<exists>r\<in>set df_truth_raw. t_location r = Some l}"
    using truth_loader_keys by blast
  from states counties forecast truth show ?thesis by blast
qed

text \<open>Witness of C9: a table of the 58 abbreviated locations in which the codes of the
  first states have lost their zero (\<^verbatim>\<open>1\<close> for Alabama), and two counties; a
  loaded model and a truth table.\<close>

theorem location_codes_padded_in_state_table_only_witness:
  "(case load_locations False locations_example of
      Inr (fips_to_us_state, fips_to_evaluate) \<Rightarrow>
        take 4 fips_to_evaluate = [''US'', ''01'', ''02'', ''04'']
        \<and> length fips_to_evaluate = 52
        \<and> map_of fips_to_us_state ''01'' = Some ''Alabama''
        \<and> ''1'' \<notin> set fips_to_evaluate
    | Inl e \<Rightarrow> False)
   \<and> load_locations True locations_example
       = Inr ([(''US'', ''US''), (''01001'', ''01001''), (''11001'', ''11001'')],
              [''US'', ''01001''])
   \<and> load_model estimate_example 737596 True [''US'', ''01'', ''02'']
        [(''US'', ''US''), (''01'', ''Alabama''), (''02'', ''Alaska'')]
        [(''01'', 40), (''02'', 50), (''US'', 100)]
       = Inr (Loaded \<lparr>num_locations = 2,
                       diffs_dict = [(''01'', Some (-30)), (''02'', None), (''US'', Some (-70))],
                       us_projection = Some 30,
                       all_projections = [(''01'', 10), (''US'', 30)]\<rparr>)
   \<and> truth_loader truth_example 737591 737596 [''US'', ''01'']
       = Inr ([(''01'', 30), (''US'', 300)], 300)"
proof -
  have t: "truth_loader truth_example 737591 737596 [''US'', ''01'']
       = Inr ([(''01'', 30), (''US'', 300)], 300)" by code_simp
  have s: "(case load_locations False locations_example of
      Inr (fips_to_us_state, fips_to_evaluate) \<Rightarrow>
        take 4 fips_to_evaluate = [''US'', ''01'', ''02'', ''04'']
        \<and> length fips_to_evaluate = 52
        \<and> map_of fips_to_us_state ''01'' = Some ''Alabama''
        \<and> ''1'' \<notin> set fips_to_evaluate
    | Inl e \<Rightarrow> False)" by code_simp
  have c: "load_locations True locations_example
       = Inr ([(''US'', ''US''), (''01001'', ''01001''), (''11001'', ''11001'')],
              [''US'', ''01001''])" by code_simp
  have p: "load_model estimate_example 737596 True [''US'', ''01'', ''02'']
        [(''US'', ''US''), (''01'', ''Alabama''), (''02'', ''Alaska'')]
        [(''01'', 40), (''02'', 50), (''US'', 100)]
       = Inr (Loaded \<lparr>num_locations = 2,
                       diffs_dict = [(''01'', Some (-30)), (''02'', None), (''US'', Some (-70))],
                       us_projection = Some 30,
                       all_projections = [(''01'', 10), (''US'', 30)]\<rparr>)" by code_simp
  show ?thesis
    using location_codes_padded_in_state_table_only[of locations_example estimate_example
        737596 True "[''US'', ''01'', ''02'']"
        "[(''US'', ''US''), (''01'', ''Alabama''), (''02'', ''Alaska'')]"
        "[(''01'', 40), (''02'', 50), (''US'', 100)]"] s c p t
    by simp
qed

text \<open>
  Counterexample to C9 as the specification words it (a single-digit code is padded before
  it is used for matching and evaluation): in county mode the code \<^verbatim>\<open>1\<close> of the
  table enters the evaluation universe as it is; and in state mode a forecast row with
  the location \<^verbatim>\<open>1\<close> is not matched with the location \<^verbatim>\<open>01\<close> of the universe, so
  that the model, which has no other row, is skipped.
\<close>

theorem location_code_not_padded_counterexample:
  "load_locations True
     [\<lparr>loc_code = ''1'', abbr = None, location_name = ''A county''\<rparr>,
      \<lparr>loc_code = ''US'', abbr = Some ''US'', location_name = ''US''\<rparr>]
     = Inr ([(''1'', ''1''), (''US'', ''US'')], [''1'', ''US''])
   \<and> load_model [example_row ''1 wk ahead inc case'' 737596 ''1'' ''point'' None 10]
        737596 True [''US'', ''01''] [(''US'', ''US''), (''01'', ''Alabama'')]
        [(''01'', 40), (''US'', 100)]
     = Inr (Skipped ''No rows after filt, skipping...'')"
  by code_simp

end
